theory Spec2Isabelle
  imports Main
begin

section \<open>Data model (models.py)\<close>

text \<open>
  A \<^verbatim>\<open>DateTime\<close> column holds a Python \<^verbatim>\<open>datetime\<close>: it is modelled as the number of
  microseconds since \<^verbatim>\<open>datetime.min\<close>, an \<^typ>\<open>int\<close>. A nullable column is an
  \<^typ>\<open>'a option\<close>. The \<^verbatim>\<open>status\<close> column is a \<^verbatim>\<open>String(50)\<close> that the code writes with the
  four literals \<^verbatim>\<open>pending\<close>, \<^verbatim>\<open>processing\<close>, \<^verbatim>\<open>completed\<close>, \<^verbatim>\<open>failed\<close>; it stays a string
  here, as in the source. \<^verbatim>\<open>analysis_result\<close> is the JSON object \<^verbatim>\<open>{"analysis": str(result)}\<close>
  and is represented by its only value. \<^verbatim>\<open>duration_seconds\<close> is the difference of two
  clock readings, kept in the unit of the clock.
\<close>

type_synonym datetime = int

record analysis_task =
  task_id :: string
  file_name :: string
  file_path :: "string option"
  query :: string
  status :: string
  analysis_result :: "string option"
  error_message :: "string option"
  created_at :: datetime
  started_at :: "datetime option"
  completed_at :: "datetime option"
  duration_seconds :: "int option"
  celery_task_id :: "string option"

record user_analysis_history =
  history_id :: string
  user_id :: "string option"
  h_analysis_task_id :: string
  document_name :: string
  analysis_type :: string

record analysis_metrics =
  metrics_id :: string
  m_analysis_task_id :: string
  tokens_used :: "int option"

text \<open>The three tables of the database, each a list of rows.\<close>

record database =
  tasks :: "analysis_task list"
  history :: "user_analysis_history list"
  metrics :: "analysis_metrics list"

text \<open>
  \<^verbatim>\<open>db.query(AnalysisTask).filter(AnalysisTask.id == task_id).first()\<close> and the
  \<^verbatim>\<open>UPDATE\<close> that \<^verbatim>\<open>db.commit()\<close> issues for a modified row (the row is found by its
  primary key).
\<close>

definition first_task :: "database \<Rightarrow> string \<Rightarrow> analysis_task option" where
  "first_task db tid = find (\<lambda>t. task_id t = tid) (tasks db)"

definition commit_task :: "database \<Rightarrow> analysis_task \<Rightarrow> database" where
  "commit_task db r =
     db\<lparr>tasks := map (\<lambda>t. if task_id t = task_id r then r else t) (tasks db)\<rparr>"

section \<open>The worker task (celery_app.py)\<close>

definition task_time_limit :: int where
  "task_time_limit = 30 * 60"

definition task_soft_time_limit :: int where
  "task_soft_time_limit = 25 * 60"

text \<open>
  What the call \<^verbatim>\<open>run_crew(query=query, file_path=file_path)\<close> on line 82 does, seen from
  the task: it returns a result, or it raises an \<^verbatim>\<open>Exception\<close> (the engine's own error,
  or the \<^verbatim>\<open>SoftTimeLimitExceeded\<close> that the soft time limit raises inside the running
  task), or the hard time limit terminates the process that runs the task, and then no
  further statement of the task runs.
\<close>

record exc =
  exc_str :: string
  exc_traceback :: string

datatype engine_outcome = Returns string | Raises exc | Killed

text \<open>
  One delivery of the task's message: the arguments of the task, \<^verbatim>\<open>self.request.id\<close>,
  the three readings of \<^verbatim>\<open>datetime.utcnow()\<close> that a run makes (line 68, line 87 or 110,
  line 91 or 113), the outcome of the engine call, and what the environment does at the
  other statements of the \<^verbatim>\<open>try\<close> that can raise:
  \<^item> \<open>lookup_raises\<close>: the query of line 62, the one statement that runs while the local
    \<^verbatim>\<open>task_record\<close> is still \<^verbatim>\<open>None\<close>, the case that the handler tests for on line 107;
  \<^item> \<open>dispatch_commit_raises\<close>: the commit of line 70, for a reason other than the
    \<^verbatim>\<open>UNIQUE\<close> constraint on \<^verbatim>\<open>celery_task_id\<close>, which is decided by the table;
  \<^item> \<open>progress_raises\<close>: the reports \<^verbatim>\<open>self.update_state\<close> of lines 75 and 81 and the
    import of line 78, which run between the commit and the engine call;
  \<^item> \<open>outcome_commit_raises\<close>: the commit that writes the outcome, line 94 after a
    result and line 116 in the handler.
  \<^verbatim>\<open>SessionLocal()\<close> on line 57 stands outside the \<^verbatim>\<open>try\<close> and is not part of the run.
\<close>

record delivery =
  request_id :: string
  d_task_id :: string
  d_query :: string
  d_file_path :: string
  now_started :: datetime
  now_completed :: datetime
  now_duration :: datetime
  lookup_raises :: "exc option"
  dispatch_commit_raises :: "exc option"
  progress_raises :: "exc option"
  engine :: engine_outcome
  outcome_commit_raises :: "exc option"

datatype task_return =
    Record_not_found
  | Return_completed string string
  | Return_failed string string

text \<open>
  An exception that leaves the task: the \<^verbatim>\<open>PendingRollbackError\<close> that the session
  raises when it is used after a commit of it has failed (it names the exception of that
  commit), or the exception of the handler's own commit.
\<close>

datatype escaped = PendingRollbackError exc | Handler_commit_error exc

text \<open>
  What a run leaves behind: the databases it committed, in order, the calls of the engine
  it made, the value it returned and the exception that left it. A run that returns has
  no exception, a run that raises returns nothing, and a run whose process was killed has
  neither.
\<close>

record task_run =
  commits :: "database list"
  engine_calls :: "(string \<times> string) list"
  returned :: "task_return option"
  propagated :: "escaped option"

text \<open>
  \<^verbatim>\<open>celery_task_id\<close> is declared \<^verbatim>\<open>unique=True\<close> (models.py): the commit of line 70
  fails with an \<^verbatim>\<open>IntegrityError\<close> when another row of the table holds the id that the
  run writes.
\<close>

definition celery_task_id_free :: "database \<Rightarrow> string \<Rightarrow> string \<Rightarrow> bool" where
  "celery_task_id_free db tid cid =
     list_all (\<lambda>t. task_id t = tid \<or> celery_task_id t \<noteq> Some cid) (tasks db)"

definition integrity_error :: exc where
  "integrity_error =
     \<lparr>exc_str = ''UNIQUE constraint failed: analysis_tasks.celery_task_id'',
      exc_traceback = []\<rparr>"

definition dispatch_commit :: "database \<Rightarrow> delivery \<Rightarrow> exc option" where
  "dispatch_commit db d =
     (case dispatch_commit_raises d of
        Some e \<Rightarrow> Some e
      | None \<Rightarrow>
          if celery_task_id_free db (d_task_id d) (request_id d) then None
          else Some integrity_error)"

text \<open>Lines 90-92 and 112-114: the duration, when \<^verbatim>\<open>started_at\<close> is set.\<close>

definition set_duration :: "datetime \<Rightarrow> analysis_task \<Rightarrow> analysis_task" where
  "set_duration now r =
     (case started_at r of
        None \<Rightarrow> r
      | Some s \<Rightarrow> r\<lparr>duration_seconds := Some (now - s)\<rparr>)"

text \<open>
  The body of the \<^verbatim>\<open>try\<close> (lines 61-102). It gives the run so far, the value of the
  local \<^verbatim>\<open>task_record\<close>, and \<open>Inl (e, rolled_back)\<close> when the body raised \<open>e\<close>:
  \<open>rolled_back\<close> tells that \<open>e\<close> came from a commit, which has rolled the transaction
  of the session back and left the session unusable until \<^verbatim>\<open>db.rollback()\<close>.
\<close>

definition task_try ::
  "database \<Rightarrow> delivery \<Rightarrow> task_run \<times> analysis_task option \<times> (exc \<times> bool + unit)" where
  "task_try db d =
     (let none = \<lparr>commits = [], engine_calls = [], returned = None, propagated = None\<rparr>
      in case lookup_raises d of
           Some e \<Rightarrow> (none, None, Inl (e, False))
         | None \<Rightarrow>
             (case first_task db (d_task_id d) of
                None \<Rightarrow> (none\<lparr>returned := Some Record_not_found\<rparr>, None, Inr ())
              | Some task_record \<Rightarrow>
                  let r1 = task_record\<lparr>status := ''processing'',
                                       started_at := Some (now_started d),
                                       celery_task_id := Some (request_id d)\<rparr>
                  in (case dispatch_commit db d of
                        Some e \<Rightarrow> (none, Some r1, Inl (e, True))
                      | None \<Rightarrow>
                          let db1 = commit_task db r1;
                              started = none\<lparr>commits := [db1]\<rparr>
                          in (case progress_raises d of
                                Some e \<Rightarrow> (started, Some r1, Inl (e, False))
                              | None \<Rightarrow>
                                  let called =
                                        started\<lparr>engine_calls := [(d_query d, d_file_path d)]\<rparr>
                                  in (case engine d of
                                        Killed \<Rightarrow> (called, Some r1, Inr ())
                                      | Raises e \<Rightarrow> (called, Some r1, Inl (e, False))
                                      | Returns result \<Rightarrow>
                                          let r2 = r1\<lparr>analysis_result := Some result,
                                                      status := ''completed'',
                                                      completed_at := Some (now_completed d)\<rparr>;
                                              r3 = set_duration (now_duration d) r2
                                          in (case outcome_commit_raises d of
                                                Some e \<Rightarrow> (called, Some r3, Inl (e, True))
                                              | None \<Rightarrow>
                                                  (called\<lparr>commits := [db1, commit_task db1 r3],
                                                          returned := Some (Return_completed
                                                            (d_task_id d) result)\<rparr>,
                                                   Some r3, Inr ())))))))"

text \<open>
  The handler \<^verbatim>\<open>except Exception as e\<close> (lines 104-122). Without a record it returns
  the dictionary. With one it writes the failure on the record and commits, on the same
  session and without \<^verbatim>\<open>db.rollback()\<close>: after a failed commit the session raises
  \<^verbatim>\<open>PendingRollbackError\<close>, and this exception, like the one of the handler's own
  commit, is raised inside the handler and leaves the task. The session writes to the
  database as the last commit left it.
\<close>

definition task_except ::
  "database \<Rightarrow> delivery \<Rightarrow> task_run \<Rightarrow> analysis_task option \<Rightarrow> exc \<times> bool \<Rightarrow> task_run" where
  "task_except db d run task_record raised =
     (let e = fst raised;
          ret = Some (Return_failed (d_task_id d) (exc_str e))
      in case task_record of
           None \<Rightarrow> run\<lparr>returned := ret\<rparr>
         | Some r \<Rightarrow>
             if snd raised then run\<lparr>propagated := Some (PendingRollbackError e)\<rparr>
             else
               let r1 = r\<lparr>status := ''failed'',
                          error_message := Some (exc_str e @ [CHR 0x0A] @ exc_traceback e),
                          completed_at := Some (now_completed d)\<rparr>;
                   r2 = set_duration (now_duration d) r1
               in (case outcome_commit_raises d of
                     Some e' \<Rightarrow> run\<lparr>propagated := Some (Handler_commit_error e')\<rparr>
                   | None \<Rightarrow>
                       run\<lparr>commits := commits run @ [commit_task (last (db # commits run)) r2],
                           returned := ret\<rparr>))"

definition analyze_financial_document_task :: "database \<Rightarrow> delivery \<Rightarrow> task_run" where
  "analyze_financial_document_task db d =
     (case task_try db d of
        (run, task_record, Inr _) \<Rightarrow> run
      | (run, task_record, Inl raised) \<Rightarrow> task_except db d run task_record raised)"

text \<open>The database after a run: the last one committed, or the one it started from.\<close>

definition db_after :: "database \<Rightarrow> task_run \<Rightarrow> database" where
  "db_after db run = last (db # commits run)"

text \<open>
  A delivery that the environment does not disturb: the lookup and the commit of the
  dispatch succeed (\<open>dispatched\<close>), and so do the progress reports and the commit of the
  outcome.
\<close>

definition dispatched :: "database \<Rightarrow> delivery \<Rightarrow> bool" where
  "dispatched db d = (lookup_raises d = None \<and> dispatch_commit db d = None)"

definition undisturbed :: "database \<Rightarrow> delivery \<Rightarrow> bool" where
  "undisturbed db d =
     (dispatched db d \<and> progress_raises d = None \<and> outcome_commit_raises d = None)"

text \<open>
  A sequence of deliveries, one run after the other: every database that the runs
  commit, in the order a reader of the store can observe them.
\<close>

fun deliver_all :: "database \<Rightarrow> delivery list \<Rightarrow> database list" where
  "deliver_all db [] = []"
| "deliver_all db (d # ds) =
     (let run = analyze_financial_document_task db d
      in commits run @ deliver_all (db_after db run) ds)"

definition status_of :: "database \<Rightarrow> string \<Rightarrow> string option" where
  "status_of db tid = map_option status (first_task db tid)"


section \<open>Submission (main.py, analyze_document)\<close>

text \<open>
  The store the endpoints work on: the database, the paths that exist in the file
  system, the paths on which \<^verbatim>\<open>os.remove\<close> raises, and the messages handed to the queue
  (Celery id, task id, query, file path).
\<close>

record world =
  store :: database
  files :: "string list"
  locked :: "string list"
  queue :: "(string \<times> string \<times> string \<times> string) list"

record upload_file =
  filename :: string
  content :: string

text \<open>
  What the environment supplies to one submission: the two \<^verbatim>\<open>uuid4\<close> values (the file
  id of line 54 and the default of the \<^verbatim>\<open>id\<close> column), the id of the history row, the
  clock reading of line 76, whether opening or writing the file raises, and what
  \<^verbatim>\<open>.delay(...)\<close> does (it raises, or it returns the id of the queued message).
\<close>

record submit_env =
  file_id :: string
  new_task_id :: string
  new_history_id :: string
  utcnow :: datetime
  write_raises :: "exc option"
  delay_result :: "exc + string"

record http_exception =
  status_code :: nat
  detail :: string

record queued_response =
  resp_status :: string
  resp_task_id :: string
  resp_celery_task_id :: string
  resp_message :: string
  resp_file_processed :: string

definition default_query :: string where
  "default_query = ''Analyze this financial document for investment insights''"

text \<open>
  \<^verbatim>\<open>str.strip()\<close>. A \<^typ>\<open>char\<close> stands for a code point below 256, and a string of
  the model is a Python string of such code points. Among them \<^verbatim>\<open>str.isspace\<close> holds of
  \<^verbatim>\<open>\t \n \x0b \x0c \r\<close> (9 to 13), of \<^verbatim>\<open>\x1c \x1d \x1e \x1f\<close> and the space (28 to
  32), of \<^verbatim>\<open>\x85\<close> and of \<^verbatim>\<open>\xa0\<close>.
\<close>

definition isspace :: "char \<Rightarrow> bool" where
  "isspace c =
     (let n = (of_char c :: nat)
      in (9 \<le> n \<and> n \<le> 13) \<or> (28 \<le> n \<and> n \<le> 32) \<or> n = 133 \<or> n = 160)"

definition strip :: "string \<Rightarrow> string" where
  "strip s = rev (dropWhile isspace (rev (dropWhile isspace s)))"

definition internal_error :: "exc \<Rightarrow> http_exception" where
  "internal_error e =
     \<lparr>status_code = 500, detail = ''Error processing financial document: '' @ exc_str e\<rparr>"

text \<open>
  The body of the handler (lines 54-112). Every exception of the \<^verbatim>\<open>try\<close> becomes the
  \<^verbatim>\<open>HTTPException\<close> of line 112; what was committed before it stays committed. The
  two places where the environment can fail are writing the file and \<^verbatim>\<open>.delay(...)\<close>;
  the commits of the session are taken to succeed.
\<close>

definition analyze_document ::
  "upload_file \<Rightarrow> string option \<Rightarrow> submit_env \<Rightarrow> world \<Rightarrow> world \<times> (http_exception + queued_response)" where
  "analyze_document file query_arg env w =
     (let path = ''data/financial_document_'' @ file_id env @ ''.pdf''
      in case write_raises env of
           Some e \<Rightarrow> (w, Inl (internal_error e))
         | None \<Rightarrow>
             let w1 = w\<lparr>files := path # removeAll path (files w)\<rparr>;
                 q = (case query_arg of
                        None \<Rightarrow> default_query
                      | Some s \<Rightarrow> if s = [] then default_query else s);
                 task_record = \<lparr>task_id = new_task_id env,
                                file_name = filename file,
                                file_path = Some path,
                                query = strip q,
                                status = ''pending'',
                                analysis_result = None,
                                error_message = None,
                                created_at = utcnow env,
                                started_at = None,
                                completed_at = None,
                                duration_seconds = None,
                                celery_task_id = None\<rparr>;
                 db1 = (store w1)\<lparr>tasks := tasks (store w1) @ [task_record]\<rparr>;
                 w2 = w1\<lparr>store := db1\<rparr>
             in (case delay_result env of
                  Inl e \<Rightarrow> (w2, Inl (internal_error e))
                | Inr celery_id \<Rightarrow>
                    let w3 = w2\<lparr>queue := queue w2 @ [(celery_id, new_task_id env, strip q, path)]\<rparr>;
                        db2 = commit_task db1 (task_record\<lparr>celery_task_id := Some celery_id\<rparr>);
                        h = \<lparr>history_id = new_history_id env,
                             user_id = None,
                             h_analysis_task_id = new_task_id env,
                             document_name = filename file,
                             analysis_type = ''investment''\<rparr>;
                        db3 = db2\<lparr>history := history db2 @ [h]\<rparr>
                    in (w3\<lparr>store := db3\<rparr>,
                        Inr \<lparr>resp_status = ''queued'',
                             resp_task_id = new_task_id env,
                             resp_celery_task_id = celery_id,
                             resp_message = ''Analysis queued. Use task_id to check status'',
                             resp_file_processed = filename file\<rparr>)))"

text \<open>
  The request as the framework binds it to the handler's parameters:
  \<^verbatim>\<open>file: UploadFile = File(...)\<close> is required, so a request without it is answered with
  status 422 and the handler does not run; \<^verbatim>\<open>query: str = Form(default=...)\<close> takes its
  default when the field is absent.
\<close>

record analyze_request =
  req_file :: "upload_file option"
  req_query :: "string option"

definition post_analyze ::
  "analyze_request \<Rightarrow> submit_env \<Rightarrow> world \<Rightarrow> world \<times> (http_exception + queued_response)" where
  "post_analyze req env w =
     (case req_file req of
        None \<Rightarrow> (w, Inl \<lparr>status_code = 422, detail = ''Field required''\<rparr>)
      | Some file \<Rightarrow>
          analyze_document file
            (case req_query req of None \<Rightarrow> Some default_query | Some q \<Rightarrow> Some q) env w)"

section \<open>Listing (main.py, list_tasks)\<close>

text \<open>
  \<^verbatim>\<open>limit: int = 50\<close> reaches \<^verbatim>\<open>.limit(limit)\<close> as the request gave it: an unbounded
  Python \<^verbatim>\<open>int\<close>, bound to a parameter of the statement that is a 64-bit integer. A
  value outside \<open>-2^63 .. 2^63 - 1\<close> is refused (\<^verbatim>\<open>OverflowError\<close> with SQLite, an
  out-of-range error with PostgreSQL). What \<^verbatim>\<open>LIMIT n\<close> means for a negative \<open>n\<close> is
  the database engine's, chosen by \<^verbatim>\<open>DB_URL\<close> (config.py): SQLite, the default, puts
  no bound on the rows; PostgreSQL refuses the statement. Every refusal is an exception
  that leaves the handler.
\<close>

datatype dialect = SQLite | PostgreSQL

datatype db_error = Negative_limit | Integer_out_of_range

definition sql_limit :: "dialect \<Rightarrow> int \<Rightarrow> 'a list \<Rightarrow> db_error + 'a list" where
  "sql_limit dia n rows =
     (if n < - (2 ^ 63) \<or> 2 ^ 63 \<le> n then Inl Integer_out_of_range
      else if 0 \<le> n then Inr (take (nat n) rows)
      else case dia of SQLite \<Rightarrow> Inr rows | PostgreSQL \<Rightarrow> Inl Negative_limit)"

text \<open>
  \<^verbatim>\<open>order_by(AnalysisTask.created_at.desc())\<close>: the rows by decreasing \<^verbatim>\<open>created_at\<close>.
  The order among rows of equal \<^verbatim>\<open>created_at\<close> is the engine's; the sort used here is
  one of the orders it may give.
\<close>

definition order_by_created_at_desc :: "analysis_task list \<Rightarrow> analysis_task list" where
  "order_by_created_at_desc rows = sort_key (\<lambda>t. - created_at t) rows"

datatype json = Null | Str string | Num int | Iso datetime

definition iso_or_null :: "datetime option \<Rightarrow> json" where
  "iso_or_null t = (case t of None \<Rightarrow> Null | Some x \<Rightarrow> Iso x)"

definition str_or_null :: "string option \<Rightarrow> json" where
  "str_or_null t = (case t of None \<Rightarrow> Null | Some x \<Rightarrow> Str x)"

definition to_dict :: "analysis_task \<Rightarrow> (string \<times> json) list" where
  "to_dict t =
     [(''id'', Str (task_id t)),
      (''file_name'', Str (file_name t)),
      (''query'', Str (query t)),
      (''status'', Str (status t)),
      (''analysis_result'', str_or_null (analysis_result t)),
      (''error_message'', str_or_null (error_message t)),
      (''created_at'', Iso (created_at t)),
      (''started_at'', iso_or_null (started_at t)),
      (''completed_at'', iso_or_null (completed_at t)),
      (''duration_seconds'', (case duration_seconds t of None \<Rightarrow> Null | Some x \<Rightarrow> Num x))]"

text \<open>
  Lines 178-183: the rows bound to the local \<^verbatim>\<open>tasks\<close>. \<^verbatim>\<open>if status:\<close> is Python's
  truth test: \<^verbatim>\<open>None\<close> and the empty string add no filter.
\<close>

definition list_tasks_rows ::
  "dialect \<Rightarrow> string option \<Rightarrow> int \<Rightarrow> database \<Rightarrow> db_error + analysis_task list" where
  "list_tasks_rows dia status_arg limit db =
     (let rows = (case status_arg of
                    None \<Rightarrow> tasks db
                  | Some s \<Rightarrow> if s = [] then tasks db
                              else filter (\<lambda>t. status t = s) (tasks db))
      in sql_limit dia limit (order_by_created_at_desc rows))"

record task_list =
  count :: nat
  tasks_json :: "(string \<times> json) list list"

definition list_tasks ::
  "dialect \<Rightarrow> string option \<Rightarrow> int option \<Rightarrow> database \<Rightarrow> db_error + task_list" where
  "list_tasks dia status_arg limit_arg db =
     (case list_tasks_rows dia status_arg (case limit_arg of None \<Rightarrow> 50 | Some n \<Rightarrow> n) db of
        Inl e \<Rightarrow> Inl e
      | Inr rows \<Rightarrow> Inr \<lparr>count = length rows, tasks_json = map to_dict rows\<rparr>)"

section \<open>Retention (manage_db.py, cleanup_old_tasks)\<close>

datatype py_error = OverflowError

text \<open>
  \<^verbatim>\<open>timedelta(days=days)\<close> accepts at most 999999999 days either way, and a
  \<^verbatim>\<open>datetime\<close> lies between \<^verbatim>\<open>datetime.min\<close> and \<^verbatim>\<open>datetime.max\<close>; both raise
  \<^verbatim>\<open>OverflowError\<close> outside.
\<close>

definition datetime_max :: int where
  "datetime_max = 3652059 * 86400000000 - 1"

definition timedelta_days :: "int \<Rightarrow> py_error + int" where
  "timedelta_days days =
     (if days < - 999999999 \<or> 999999999 < days then Inl OverflowError
      else Inr (days * 86400000000))"

definition datetime_sub :: "datetime \<Rightarrow> int \<Rightarrow> py_error + datetime" where
  "datetime_sub t delta =
     (let r = t - delta
      in if r < 0 \<or> datetime_max < r then Inl OverflowError else Inr r)"

definition cutoff_date :: "datetime \<Rightarrow> int \<Rightarrow> py_error + datetime" where
  "cutoff_date now days =
     (case timedelta_days days of
        Inl e \<Rightarrow> Inl e
      | Inr delta \<Rightarrow> datetime_sub now delta)"

text \<open>
  The filter of lines 37-40. A comparison with a \<^verbatim>\<open>NULL\<close> \<^verbatim>\<open>completed_at\<close> selects
  nothing.
\<close>

definition old_completed :: "datetime \<Rightarrow> analysis_task \<Rightarrow> bool" where
  "old_completed cutoff t =
     (status t = ''completed'' \<and>
      (case completed_at t of None \<Rightarrow> False | Some c \<Rightarrow> c < cutoff))"

text \<open>
  What the sweep does to the world, in the order in which it does it. A file is removed
  at the call of \<^verbatim>\<open>os.remove\<close>. A row is not: \<^verbatim>\<open>db.delete\<close> only marks it in the session
  (database.py: \<^verbatim>\<open>autoflush=False\<close>), and the \<^verbatim>\<open>DELETE\<close> statements of all marked rows
  are sent by the one \<^verbatim>\<open>db.commit()\<close> after the loop (line 74), in one transaction. The
  effect \<open>Committed\<close> names the rows of the three tables that this commit deletes, by
  their primary keys; the order in which the commit sends the statements is that of the
  session's unit of work and is not modelled.
\<close>

datatype effect =
    Removed_file string string
  | Remove_failed string string
  | Committed "string list" "string list" "string list"

fun is_file_effect :: "effect \<Rightarrow> bool" where
  "is_file_effect (Removed_file tid p) = True"
| "is_file_effect (Remove_failed tid p) = True"
| "is_file_effect (Committed ts hs ms) = False"

fun removed_paths :: "effect list \<Rightarrow> string list" where
  "removed_paths [] = []"
| "removed_paths (Removed_file tid p # es) = p # removed_paths es"
| "removed_paths (e # es) = removed_paths es"

text \<open>The rows that the session has marked for deletion, by their primary keys.\<close>

record pending_deletes =
  del_tasks :: "string list"
  del_history :: "string list"
  del_metrics :: "string list"

definition no_deletes :: pending_deletes where
  "no_deletes = \<lparr>del_tasks = [], del_history = [], del_metrics = []\<rparr>"

text \<open>Lines 50-56: the file of the task, when it has a path and the path exists.\<close>

definition remove_file :: "world \<Rightarrow> analysis_task \<Rightarrow> world \<times> effect list" where
  "remove_file w t =
     (case file_path t of
        None \<Rightarrow> (w, [])
      | Some p \<Rightarrow>
          if p \<noteq> [] \<and> p \<in> set (files w)
          then (if p \<in> set (locked w) then (w, [Remove_failed (task_id t) p])
                else (w\<lparr>files := removeAll p (files w)\<rparr>, [Removed_file (task_id t) p]))
          else (w, []))"

text \<open>
  Lines 49-72: the body of the loop for one task. The two queries read the tables as
  they are in the database; the rows they give and the task are marked.
\<close>

definition sweep_task ::
  "world \<Rightarrow> pending_deletes \<Rightarrow> analysis_task \<Rightarrow> world \<times> pending_deletes \<times> effect list" where
  "sweep_task w pending t =
     (let (w1, file_effects) = remove_file w t;
          hs = filter (\<lambda>h. h_analysis_task_id h = task_id t) (history (store w1));
          ms = filter (\<lambda>m. m_analysis_task_id m = task_id t) (metrics (store w1))
      in (w1,
          pending\<lparr>del_history := del_history pending @ map history_id hs,
                  del_metrics := del_metrics pending @ map metrics_id ms,
                  del_tasks := del_tasks pending @ [task_id t]\<rparr>,
          file_effects))"

fun sweep_all ::
  "world \<Rightarrow> pending_deletes \<Rightarrow> analysis_task list \<Rightarrow> world \<times> pending_deletes \<times> effect list" where
  "sweep_all w pending [] = (w, pending, [])"
| "sweep_all w pending (t # ts) =
     (let (w1, pending1, es) = sweep_task w pending t;
          (w2, pending2, es') = sweep_all w1 pending1 ts
      in (w2, pending2, es @ es'))"

text \<open>
  Line 74: the commit deletes the marked rows, each found by its primary key. It is
  taken to succeed.
\<close>

definition commit_deletes :: "database \<Rightarrow> pending_deletes \<Rightarrow> database" where
  "commit_deletes db pending =
     db\<lparr>tasks := filter (\<lambda>t. task_id t \<notin> set (del_tasks pending)) (tasks db),
        history := filter (\<lambda>h. history_id h \<notin> set (del_history pending)) (history db),
        metrics := filter (\<lambda>m. metrics_id m \<notin> set (del_metrics pending)) (metrics db)\<rparr>"

definition cleanup_old_tasks :: "datetime \<Rightarrow> int \<Rightarrow> world \<Rightarrow> py_error + (world \<times> effect list)" where
  "cleanup_old_tasks now days w =
     (case cutoff_date now days of
        Inl e \<Rightarrow> Inl e
      | Inr cutoff \<Rightarrow>
          let old_tasks = filter (old_completed cutoff) (tasks (store w))
          in if old_tasks = [] then Inr (w, [])
             else let (w1, pending, es) = sweep_all w no_deletes old_tasks
                  in Inr (w1\<lparr>store := commit_deletes (store w1) pending\<rparr>,
                          es @ [Committed (del_tasks pending) (del_history pending)
                                  (del_metrics pending)]))"

section \<open>Example stores and deliveries\<close>

definition done_job :: analysis_task where
  "done_job =
     \<lparr>task_id = ''j1'', file_name = ''a.pdf'', file_path = Some ''data/a.pdf'',
      query = ''summarize'', status = ''completed'', analysis_result = Some ''r1'',
      error_message = None, created_at = 10, started_at = Some 20, completed_at = Some 30,
      duration_seconds = Some 10, celery_task_id = Some ''c1''\<rparr>"

definition pending_job :: analysis_task where
  "pending_job =
     \<lparr>task_id = ''j1'', file_name = ''a.pdf'', file_path = Some ''data/a.pdf'',
      query = ''summarize'', status = ''pending'', analysis_result = None,
      error_message = None, created_at = 10, started_at = None, completed_at = None,
      duration_seconds = None, celery_task_id = Some ''c1''\<rparr>"

definition running_job :: analysis_task where
  "running_job = pending_job\<lparr>status := ''processing'', started_at := Some 20\<rparr>"

definition failed_job :: analysis_task where
  "failed_job =
     running_job\<lparr>status := ''failed'', error_message := Some ''boom'',
                  completed_at := Some 30, duration_seconds := Some 10\<rparr>"

definition db_of :: "analysis_task \<Rightarrow> database" where
  "db_of t = \<lparr>tasks = [t], history = [], metrics = []\<rparr>"

definition boom :: exc where
  "boom = \<lparr>exc_str = ''boom'', exc_traceback = ''Traceback''\<rparr>"

definition redelivery :: "engine_outcome \<Rightarrow> delivery" where
  "redelivery out =
     \<lparr>request_id = ''c1'', d_task_id = ''j1'', d_query = ''summarize'',
      d_file_path = ''data/a.pdf'', now_started = 100, now_completed = 110,
      now_duration = 111, lookup_raises = None, dispatch_commit_raises = None,
      progress_raises = None, engine = out, outcome_commit_raises = None\<rparr>"

definition empty_world :: world where
  "empty_world =
     \<lparr>store = \<lparr>tasks = [], history = [], metrics = []\<rparr>, files = [], locked = [], queue = []\<rparr>"

definition report :: upload_file where
  "report = \<lparr>filename = ''a.pdf'', content = ''%PDF''\<rparr>"

definition env_ok :: submit_env where
  "env_ok =
     \<lparr>file_id = ''f1'', new_task_id = ''j1'', new_history_id = ''h1'', utcnow = 10,
      write_raises = None, delay_result = Inr ''c1''\<rparr>"

definition broker_down :: exc where
  "broker_down = \<lparr>exc_str = ''Connection refused'', exc_traceback = ''Traceback''\<rparr>"

definition three_jobs :: database where
  "three_jobs =
     \<lparr>tasks = [pending_job,
               done_job\<lparr>task_id := ''j2'', created_at := 30\<rparr>,
               failed_job\<lparr>task_id := ''j3'', created_at := 20\<rparr>],
      history = [], metrics = []\<rparr>"

definition sweep_world :: world where
  "sweep_world =
     \<lparr>store =
        \<lparr>tasks = [done_job,
                  failed_job\<lparr>task_id := ''j3'', file_path := Some ''data/c.pdf''\<rparr>,
                  done_job\<lparr>task_id := ''j2'', file_path := Some ''data/b.pdf'',
                           completed_at := Some 9000000000000\<rparr>],
         history = [\<lparr>history_id = ''h1'', user_id = None, h_analysis_task_id = ''j1'',
                      document_name = ''a.pdf'', analysis_type = ''investment''\<rparr>,
                    \<lparr>history_id = ''h2'', user_id = None, h_analysis_task_id = ''j2'',
                      document_name = ''a.pdf'', analysis_type = ''investment''\<rparr>],
         metrics = [\<lparr>metrics_id = ''m1'', m_analysis_task_id = ''j1'', tokens_used = None\<rparr>]\<rparr>,
      files = [''data/a.pdf'', ''data/b.pdf'', ''data/c.pdf''], locked = [], queue = []\<rparr>"

definition clash_db :: database where
  "clash_db =
     \<lparr>tasks = [pending_job\<lparr>celery_task_id := None\<rparr>, done_job\<lparr>task_id := ''j2''\<rparr>],
      history = [], metrics = []\<rparr>"

section \<open>The store under one run of the worker\<close>

lemma find_task_id: "find (\<lambda>t. task_id t = tid) xs = Some r \<Longrightarrow> task_id r = tid"
  by (induction xs) (auto split: if_splits)

lemma first_task_id: "first_task db tid = Some r \<Longrightarrow> task_id r = tid"
  unfolding first_task_def by (rule find_task_id)

lemma find_map_update:
  "find (\<lambda>t. task_id t = tid) (map (\<lambda>t. if task_id t = task_id r then r else t) xs) =
     (if tid = task_id r then map_option (\<lambda>_. r) (find (\<lambda>t. task_id t = tid) xs)
      else find (\<lambda>t. task_id t = tid) xs)"
  by (induction xs) auto

lemma first_task_commit:
  "first_task (commit_task db r) tid =
     (if tid = task_id r then map_option (\<lambda>_. r) (first_task db tid) else first_task db tid)"
  unfolding first_task_def commit_task_def by (simp add: find_map_update)

lemmas task_defs =
  analyze_financial_document_task_def task_try_def task_except_def set_duration_def Let_def

lemma undisturbedD:
  "undisturbed db d \<Longrightarrow> lookup_raises d = None"
  "undisturbed db d \<Longrightarrow> dispatch_commit db d = None"
  "undisturbed db d \<Longrightarrow> progress_raises d = None"
  "undisturbed db d \<Longrightarrow> outcome_commit_raises d = None"
  by (simp_all add: undisturbed_def dispatched_def)

text \<open>The runs that end before the engine is called.\<close>

lemma run_lookup_raises:
  "lookup_raises d = Some e \<Longrightarrow>
   analyze_financial_document_task db d =
     \<lparr>commits = [], engine_calls = [],
      returned = Some (Return_failed (d_task_id d) (exc_str e)), propagated = None\<rparr>"
  by (simp add: task_defs)

lemma run_absent:
  "lookup_raises d = None \<Longrightarrow> first_task db (d_task_id d) = None \<Longrightarrow>
   analyze_financial_document_task db d =
     \<lparr>commits = [], engine_calls = [], returned = Some Record_not_found, propagated = None\<rparr>"
  by (simp add: task_defs)

lemma run_dispatch_commit_fails:
  "lookup_raises d = None \<Longrightarrow> first_task db (d_task_id d) = Some r \<Longrightarrow>
   dispatch_commit db d = Some e \<Longrightarrow>
   analyze_financial_document_task db d =
     \<lparr>commits = [], engine_calls = [], returned = None,
      propagated = Some (PendingRollbackError e)\<rparr>"
  by (simp add: task_defs)

lemma run_progress_raises:
  "dispatched db d \<Longrightarrow> first_task db (d_task_id d) = Some r \<Longrightarrow>
   progress_raises d = Some e \<Longrightarrow> outcome_commit_raises d = None \<Longrightarrow>
   analyze_financial_document_task db d =
     (let r1 = r\<lparr>status := ''processing'', started_at := Some (now_started d),
                  celery_task_id := Some (request_id d)\<rparr>;
          db1 = commit_task db r1
      in \<lparr>commits = [db1, commit_task db1
                (r1\<lparr>status := ''failed'',
                    error_message := Some (exc_str e @ [CHR 0x0A] @ exc_traceback e),
                    completed_at := Some (now_completed d),
                    duration_seconds := Some (now_duration d - now_started d)\<rparr>)],
          engine_calls = [],
          returned = Some (Return_failed (d_task_id d) (exc_str e)), propagated = None\<rparr>)"
  by (simp add: task_defs dispatched_def)

text \<open>The undisturbed runs, by the outcome of the engine call.\<close>

lemma run_killed:
  "undisturbed db d \<Longrightarrow> first_task db (d_task_id d) = Some r \<Longrightarrow> engine d = Killed \<Longrightarrow>
   analyze_financial_document_task db d =
     \<lparr>commits = [commit_task db (r\<lparr>status := ''processing'',
                                     started_at := Some (now_started d),
                                     celery_task_id := Some (request_id d)\<rparr>)],
      engine_calls = [(d_query d, d_file_path d)], returned = None, propagated = None\<rparr>"
  by (simp add: task_defs undisturbedD)

lemma run_returns:
  "undisturbed db d \<Longrightarrow> first_task db (d_task_id d) = Some r \<Longrightarrow> engine d = Returns res \<Longrightarrow>
   analyze_financial_document_task db d =
     (let r1 = r\<lparr>status := ''processing'', started_at := Some (now_started d),
                  celery_task_id := Some (request_id d)\<rparr>;
          db1 = commit_task db r1
      in \<lparr>commits = [db1, commit_task db1
                (r1\<lparr>analysis_result := Some res, status := ''completed'',
                    completed_at := Some (now_completed d),
                    duration_seconds := Some (now_duration d - now_started d)\<rparr>)],
          engine_calls = [(d_query d, d_file_path d)],
          returned = Some (Return_completed (d_task_id d) res), propagated = None\<rparr>)"
  by (simp add: task_defs undisturbedD)

lemma run_raises:
  "undisturbed db d \<Longrightarrow> first_task db (d_task_id d) = Some r \<Longrightarrow> engine d = Raises e \<Longrightarrow>
   analyze_financial_document_task db d =
     (let r1 = r\<lparr>status := ''processing'', started_at := Some (now_started d),
                  celery_task_id := Some (request_id d)\<rparr>;
          db1 = commit_task db r1
      in \<lparr>commits = [db1, commit_task db1
                (r1\<lparr>status := ''failed'',
                    error_message := Some (exc_str e @ [CHR 0x0A] @ exc_traceback e),
                    completed_at := Some (now_completed d),
                    duration_seconds := Some (now_duration d - now_started d)\<rparr>)],
          engine_calls = [(d_query d, d_file_path d)],
          returned = Some (Return_failed (d_task_id d) (exc_str e)), propagated = None\<rparr>)"
  by (simp add: task_defs undisturbedD)

text \<open>The job record in each database that an undisturbed run on an existing job commits.\<close>

lemma run_rows:
  assumes u: "undisturbed db d" and r: "first_task db (d_task_id d) = Some r"
  shows "map (\<lambda>c. first_task c (d_task_id d)) (commits (analyze_financial_document_task db d)) =
     (let r1 = r\<lparr>status := ''processing'', started_at := Some (now_started d),
                  celery_task_id := Some (request_id d)\<rparr>
      in case engine d of
           Killed \<Rightarrow> [Some r1]
         | Returns res \<Rightarrow>
             [Some r1,
              Some (r1\<lparr>analysis_result := Some res, status := ''completed'',
                       completed_at := Some (now_completed d),
                       duration_seconds := Some (now_duration d - now_started d)\<rparr>)]
         | Raises e \<Rightarrow>
             [Some r1,
              Some (r1\<lparr>status := ''failed'',
                       error_message := Some (exc_str e @ [CHR 0x0A] @ exc_traceback e),
                       completed_at := Some (now_completed d),
                       duration_seconds := Some (now_duration d - now_started d)\<rparr>)])"
proof -
  have tid: "task_id r = d_task_id d" using r by (rule first_task_id)
  show ?thesis
    by (cases "engine d")
      (simp_all add: run_killed[OF u r] run_returns[OF u r] run_raises[OF u r] Let_def
        first_task_commit r tid)
qed

lemma run_commits_nonempty:
  "undisturbed db d \<Longrightarrow> first_task db (d_task_id d) = Some r \<Longrightarrow>
   commits (analyze_financial_document_task db d) \<noteq> []"
  by (cases "engine d") (simp_all add: run_killed run_returns run_raises Let_def)

lemma db_after_row:
  assumes "undisturbed db d" and "first_task db (d_task_id d) = Some r"
  shows "first_task (db_after db (analyze_financial_document_task db d)) (d_task_id d) =
     last (map (\<lambda>c. first_task c (d_task_id d)) (commits (analyze_financial_document_task db d)))"
  using run_commits_nonempty[OF assms] by (simp add: db_after_def last_map)

text \<open>
  Every run, disturbed or not: what it commits is the job as the dispatch writes it
  and then, at most, the job as the outcome writes it.
\<close>

lemma run_commits_shape:
  assumes r: "first_task db (d_task_id d) = Some r"
  shows "\<exists>r2. status r2 \<noteq> ''pending'' \<and> task_id r2 = d_task_id d \<and>
      started_at r2 = Some (now_started d) \<and>
      (status r2 = ''completed'' \<and> analysis_result r2 \<noteq> None \<and>
         error_message r2 = error_message r \<or>
       status r2 = ''failed'' \<and> error_message r2 \<noteq> None \<and>
         analysis_result r2 = analysis_result r) \<and>
      (let r1 = r\<lparr>status := ''processing'', started_at := Some (now_started d),
                   celery_task_id := Some (request_id d)\<rparr>
       in commits (analyze_financial_document_task db d) = [] \<or>
          commits (analyze_financial_document_task db d) = [commit_task db r1] \<or>
          commits (analyze_financial_document_task db d) =
            [commit_task db r1, commit_task (commit_task db r1) r2])"
proof -
  have tid: "task_id r = d_task_id d" using r by (rule first_task_id)
  let ?r1 = "r\<lparr>status := ''processing'', started_at := Some (now_started d),
                celery_task_id := Some (request_id d)\<rparr>"
  let ?done = "\<lambda>res. ?r1\<lparr>analysis_result := Some res, status := ''completed'',
                    completed_at := Some (now_completed d),
                    duration_seconds := Some (now_duration d - now_started d)\<rparr>"
  let ?failed = "\<lambda>e. ?r1\<lparr>status := ''failed'',
                    error_message := Some (exc_str e @ [CHR 0x0A] @ exc_traceback e),
                    completed_at := Some (now_completed d),
                    duration_seconds := Some (now_duration d - now_started d)\<rparr>"
  let ?run = "analyze_financial_document_task db d"
  have none: "commits ?run = [] \<Longrightarrow> ?thesis"
    by (intro exI[of _ "?done []"]) (simp add: tid)
  have started: "commits ?run = [commit_task db ?r1] \<Longrightarrow> ?thesis"
    by (intro exI[of _ "?done []"]) (simp add: tid)
  have completed: "commits ?run = [commit_task db ?r1, commit_task (commit_task db ?r1) (?done res)]
      \<Longrightarrow> ?thesis" for res
    by (intro exI[of _ "?done res"]) (simp add: tid)
  have failed: "commits ?run = [commit_task db ?r1, commit_task (commit_task db ?r1) (?failed e)]
      \<Longrightarrow> ?thesis" for e
    by (intro exI[of _ "?failed e"]) (simp add: tid)
  show ?thesis
  proof (cases "lookup_raises d")
    case (Some e)
    then show ?thesis by (intro none) (simp add: run_lookup_raises)
  next
    case l: None
    show ?thesis
    proof (cases "dispatch_commit db d")
      case (Some e)
      then show ?thesis by (intro none) (simp add: run_dispatch_commit_fails[OF l r])
    next
      case c: None
      show ?thesis
      proof (cases "progress_raises d")
        case p: (Some e)
        show ?thesis
        proof (cases "outcome_commit_raises d")
          case None
          then show ?thesis by (intro failed[of e]) (simp add: task_defs r l c p)
        next
          case (Some e')
          then show ?thesis by (intro started) (simp add: task_defs r l c p)
        qed
      next
        case p: None
        show ?thesis
        proof (cases "engine d")
          case Killed
          then show ?thesis by (intro started) (simp add: task_defs r l c p)
        next
          case (Raises e)
          show ?thesis
          proof (cases "outcome_commit_raises d")
            case None
            then show ?thesis by (intro failed[of e]) (simp add: task_defs r l c p Raises)
          next
            case (Some e')
            then show ?thesis by (intro started) (simp add: task_defs r l c p Raises)
          qed
        next
          case (Returns res)
          show ?thesis
          proof (cases "outcome_commit_raises d")
            case None
            then show ?thesis by (intro completed[of res]) (simp add: task_defs r l c p Returns)
          next
            case (Some e')
            then show ?thesis by (intro started) (simp add: task_defs r l c p Returns)
          qed
        qed
      qed
    qed
  qed
qed

lemmas example_defs =
  done_job_def pending_job_def running_job_def failed_job_def db_of_def boom_def
  redelivery_def empty_world_def report_def env_ok_def broker_down_def three_jobs_def
  sweep_world_def clash_db_def

lemmas run_simps =
  analyze_financial_document_task_def task_try_def task_except_def first_task_def
  commit_task_def db_after_def set_duration_def status_of_def dispatch_commit_def
  celery_task_id_free_def dispatched_def undisturbed_def Let_def

lemma status_of_commit:
  "status_of (commit_task db r) j =
     (if j = task_id r then map_option (\<lambda>_. status r) (first_task db j) else status_of db j)"
  by (simp add: status_of_def first_task_commit option.map_comp comp_def)

lemma commit_not_pending:
  assumes "status r \<noteq> ''pending''" and "status_of (commit_task db r) j = Some ''pending''"
  shows "status_of db j = Some ''pending''"
  using assms by (auto simp: status_of_commit split: if_splits)

lemma run_not_pending:
  assumes "c \<in> set (commits (analyze_financial_document_task db d))"
    and "status_of c j = Some ''pending''"
  shows "status_of db j = Some ''pending''"
proof (cases "first_task db (d_task_id d)")
  case None
  then have "commits (analyze_financial_document_task db d) = []"
    by (cases "lookup_raises d") (simp_all add: run_lookup_raises run_absent)
  with assms(1) show ?thesis by simp
next
  case (Some r)
  let ?r1 = "r\<lparr>status := ''processing'', started_at := Some (now_started d),
                celery_task_id := Some (request_id d)\<rparr>"
  obtain r2 where r2: "status r2 \<noteq> ''pending''"
    and shape: "commits (analyze_financial_document_task db d) = [] \<or>
      commits (analyze_financial_document_task db d) = [commit_task db ?r1] \<or>
      commits (analyze_financial_document_task db d) =
        [commit_task db ?r1, commit_task (commit_task db ?r1) r2]"
    using run_commits_shape[OF Some] unfolding Let_def by blast
  have r1: "status ?r1 \<noteq> ''pending''" by simp
  from shape assms(1) consider "c = commit_task db ?r1"
    | "c = commit_task (commit_task db ?r1) r2"
    by auto
  then show ?thesis
  proof cases
    case 1
    with assms(2) show ?thesis using commit_not_pending[OF r1] by blast
  next
    case 2
    with assms(2) have "status_of (commit_task db ?r1) j = Some ''pending''"
      using commit_not_pending[OF r2] by blast
    then show ?thesis using commit_not_pending[OF r1] by blast
  qed
qed

lemma deliver_all_not_pending:
  "c \<in> set (deliver_all db ds) \<Longrightarrow> status_of c j = Some ''pending'' \<Longrightarrow>
   status_of db j = Some ''pending''"
proof (induction ds arbitrary: db)
  case Nil
  then show ?case by simp
next
  case (Cons d ds)
  let ?run = "analyze_financial_document_task db d"
  from Cons.prems(1) consider "c \<in> set (commits ?run)"
    | "c \<in> set (deliver_all (db_after db ?run) ds)"
    by (auto simp: Let_def)
  then show ?case
  proof cases
    case 1
    then show ?thesis using Cons.prems(2) by (rule run_not_pending)
  next
    case 2
    then have p: "status_of (db_after db ?run) j = Some ''pending''"
      using Cons.prems(2) by (rule Cons.IH)
    show ?thesis
    proof (cases "commits ?run = []")
      case True
      with p show ?thesis by (simp add: db_after_def)
    next
      case False
      then have "db_after db ?run \<in> set (commits ?run)" by (simp add: db_after_def)
      then show ?thesis using p by (rule run_not_pending)
    qed
  qed
qed

text \<open>The job record in every database that a run commits, disturbed or not.\<close>

lemma run_commit_row:
  assumes r: "first_task db (d_task_id d) = Some r"
    and c: "c \<in> set (commits (analyze_financial_document_task db d))"
  shows "\<exists>t. first_task c (d_task_id d) = Some t \<and> started_at t = Some (now_started d) \<and>
      (status t = ''processing'' \<and> analysis_result t = analysis_result r \<and>
         error_message t = error_message r \<or>
       status t = ''completed'' \<and> analysis_result t \<noteq> None \<and>
         error_message t = error_message r \<or>
       status t = ''failed'' \<and> error_message t \<noteq> None \<and>
         analysis_result t = analysis_result r)"
proof -
  have tid: "task_id r = d_task_id d" using r by (rule first_task_id)
  let ?r1 = "r\<lparr>status := ''processing'', started_at := Some (now_started d),
                celery_task_id := Some (request_id d)\<rparr>"
  obtain r2 where r2: "task_id r2 = d_task_id d" "started_at r2 = Some (now_started d)"
      "status r2 = ''completed'' \<and> analysis_result r2 \<noteq> None \<and>
         error_message r2 = error_message r \<or>
       status r2 = ''failed'' \<and> error_message r2 \<noteq> None \<and>
         analysis_result r2 = analysis_result r"
    and shape: "commits (analyze_financial_document_task db d) = [] \<or>
      commits (analyze_financial_document_task db d) = [commit_task db ?r1] \<or>
      commits (analyze_financial_document_task db d) =
        [commit_task db ?r1, commit_task (commit_task db ?r1) r2]"
    using run_commits_shape[OF r] unfolding Let_def by blast
  have row1: "first_task (commit_task db ?r1) (d_task_id d) = Some ?r1"
    by (simp add: first_task_commit r tid)
  have row2: "first_task (commit_task (commit_task db ?r1) r2) (d_task_id d) = Some r2"
    by (simp add: first_task_commit r tid r2(1))
  from shape c consider "c = commit_task db ?r1"
    | "c = commit_task (commit_task db ?r1) r2"
    by auto
  then show ?thesis
  proof cases
    case 1
    show ?thesis unfolding 1 row1 by simp
  next
    case 2
    show ?thesis unfolding 2 row2 using r2(2,3) by simp
  qed
qed

section \<open>Duplicate delivery\<close>

text \<open>
  C1, as the claim states it, fails: the message of the completed job \<open>j1\<close> is delivered
  once more and the engine returns \<open>r2\<close>. The run calls the engine, and the job record in
  the store is no longer the one it was.
\<close>

theorem completed_redelivery_counterexample:
  "status done_job = ''completed'' \<and>
   first_task (db_after (db_of done_job)
       (analyze_financial_document_task (db_of done_job) (redelivery (Returns ''r2'')))) ''j1''
     \<noteq> first_task (db_of done_job) ''j1'' \<and>
   engine_calls (analyze_financial_document_task (db_of done_job) (redelivery (Returns ''r2'')))
     = [(''summarize'', ''data/a.pdf'')]"
  by (simp add: example_defs run_simps)

text \<open>
  C1, amended: a delivery whose lookup finds no job with the id of the message is a
  no-op: the store is unchanged and the engine is not called. A delivery whose lookup
  finds the job is not, whatever the state of the job, \<open>completed\<close> included: in a run
  that the environment does not disturb, the first commit puts the job (back) to
  \<open>processing\<close> with the \<open>started_at\<close> and the Celery id of this delivery, and the engine
  is called once more.
\<close>

theorem completed_redelivery_runs_again:
  "(lookup_raises d = None \<and> first_task db (d_task_id d) = None \<longrightarrow>
      db_after db (analyze_financial_document_task db d) = db \<and>
      commits (analyze_financial_document_task db d) = [] \<and>
      engine_calls (analyze_financial_document_task db d) = []) \<and>
   (undisturbed db d \<and> first_task db (d_task_id d) = Some r \<longrightarrow>
      engine_calls (analyze_financial_document_task db d) = [(d_query d, d_file_path d)] \<and>
      map (\<lambda>c. first_task c (d_task_id d))
          (take 1 (commits (analyze_financial_document_task db d))) =
        [Some (r\<lparr>status := ''processing'', started_at := Some (now_started d),
                 celery_task_id := Some (request_id d)\<rparr>)])"
proof (intro conjI impI)
  assume "lookup_raises d = None \<and> first_task db (d_task_id d) = None"
  then show "db_after db (analyze_financial_document_task db d) = db"
    and "commits (analyze_financial_document_task db d) = []"
    and "engine_calls (analyze_financial_document_task db d) = []"
    by (simp_all add: run_absent db_after_def)
next
  assume a: "undisturbed db d \<and> first_task db (d_task_id d) = Some r"
  then have u: "undisturbed db d" and r: "first_task db (d_task_id d) = Some r"
    by simp_all
  show "engine_calls (analyze_financial_document_task db d) = [(d_query d, d_file_path d)]"
    by (cases "engine d")
      (simp_all add: run_killed[OF u r] run_returns[OF u r] run_raises[OF u r] Let_def)
  show "map (\<lambda>c. first_task c (d_task_id d))
          (take 1 (commits (analyze_financial_document_task db d))) =
        [Some (r\<lparr>status := ''processing'', started_at := Some (now_started d),
                 celery_task_id := Some (request_id d)\<rparr>)]"
    unfolding take_map[symmetric] run_rows[OF u r]
    by (cases "engine d") (simp_all add: Let_def)
qed

theorem completed_redelivery_runs_again_witness:
  "undisturbed (db_of done_job) (redelivery Killed) \<and>
   first_task (db_of done_job) (d_task_id (redelivery Killed)) = Some done_job \<and>
   status done_job = ''completed'' \<and>
   lookup_raises ((redelivery Killed)\<lparr>d_task_id := ''j2''\<rparr>) = None \<and>
   first_task (db_of done_job) (d_task_id ((redelivery Killed)\<lparr>d_task_id := ''j2''\<rparr>)) = None \<and>
   engine_calls (analyze_financial_document_task (db_of done_job) (redelivery Killed)) =
     [(''summarize'', ''data/a.pdf'')] \<and>
   map (\<lambda>c. map_option status (first_task c ''j1''))
     (commits (analyze_financial_document_task (db_of done_job) (redelivery Killed))) =
     [Some ''processing''] \<and>
   engine_calls (analyze_financial_document_task (db_of done_job)
     ((redelivery Killed)\<lparr>d_task_id := ''j2''\<rparr>)) = []"
  using completed_redelivery_runs_again
      [where d = "redelivery Killed" and db = "db_of done_job" and r = done_job]
    completed_redelivery_runs_again
      [where d = "(redelivery Killed)\<lparr>d_task_id := ''j2''\<rparr>" and db = "db_of done_job"
         and r = done_job]
  by (simp add: example_defs run_simps)

section \<open>The order of the states\<close>

text \<open>
  C2, as the claim states it, fails: the completed job \<open>j1\<close> is delivered once more. The
  delivery is not rejected; the run commits the job as \<open>processing\<close>, a step back from
  the terminal state, and then as \<open>completed\<close> again.
\<close>

theorem terminal_job_regresses_counterexample:
  "status_of (db_of done_job) ''j1'' = Some ''completed'' \<and>
   map (\<lambda>c. status_of c ''j1'')
     (commits (analyze_financial_document_task (db_of done_job) (redelivery (Returns ''r2''))))
     = [Some ''processing'', Some ''completed''] \<and>
   returned (analyze_financial_document_task (db_of done_job) (redelivery (Returns ''r2'')))
     = Some (Return_completed ''j1'' ''r2'')"
  by (simp add: example_defs run_simps)

text \<open>
  C2, amended: the worker applies every delivery whose job it finds, whatever the state
  of the job, and rejects none: a run that the environment does not disturb commits the
  job as \<open>processing\<close> and then, unless the process is killed, as \<open>completed\<close> or
  \<open>failed\<close>. So within one run the state moves forward, and no sequence of deliveries,
  disturbed or not, ever takes a job back to \<open>pending\<close>; a terminal job that is delivered
  again does return to \<open>processing\<close>.
\<close>

theorem worker_state_order:
  "(undisturbed db d \<and> first_task db (d_task_id d) = Some r \<longrightarrow>
      map (\<lambda>c. status_of c (d_task_id d)) (commits (analyze_financial_document_task db d)) =
        (case engine d of
           Killed \<Rightarrow> [Some ''processing'']
         | Returns res \<Rightarrow> [Some ''processing'', Some ''completed'']
         | Raises e \<Rightarrow> [Some ''processing'', Some ''failed''])) \<and>
   (c \<in> set (deliver_all db ds) \<and> status_of db j \<noteq> Some ''pending'' \<longrightarrow>
      status_of c j \<noteq> Some ''pending'')"
proof (intro conjI impI)
  assume "undisturbed db d \<and> first_task db (d_task_id d) = Some r"
  then have l: "undisturbed db d" and r: "first_task db (d_task_id d) = Some r"
    by simp_all
  have "map (\<lambda>c. status_of c (d_task_id d)) (commits (analyze_financial_document_task db d)) =
        map (map_option status)
          (map (\<lambda>c. first_task c (d_task_id d)) (commits (analyze_financial_document_task db d)))"
    by (simp add: status_of_def)
  also have "\<dots> = (case engine d of
           Killed \<Rightarrow> [Some ''processing'']
         | Returns res \<Rightarrow> [Some ''processing'', Some ''completed'']
         | Raises e \<Rightarrow> [Some ''processing'', Some ''failed''])"
    unfolding run_rows[OF l r] by (cases "engine d") (simp_all add: Let_def)
  finally show "map (\<lambda>c. status_of c (d_task_id d))
      (commits (analyze_financial_document_task db d)) =
        (case engine d of
           Killed \<Rightarrow> [Some ''processing'']
         | Returns res \<Rightarrow> [Some ''processing'', Some ''completed'']
         | Raises e \<Rightarrow> [Some ''processing'', Some ''failed''])" .
next
  assume "c \<in> set (deliver_all db ds) \<and> status_of db j \<noteq> Some ''pending''"
  then show "status_of c j \<noteq> Some ''pending''"
    using deliver_all_not_pending[of c db ds j] by blast
qed

theorem worker_state_order_witness:
  "undisturbed (db_of done_job) (redelivery (Raises boom)) \<and>
   first_task (db_of done_job) (d_task_id (redelivery (Raises boom))) = Some done_job \<and>
   db_of (done_job\<lparr>status := ''processing'', started_at := Some 100\<rparr>)
     \<in> set (deliver_all (db_of done_job) [redelivery (Raises boom)]) \<and>
   status_of (db_of done_job) ''j1'' \<noteq> Some ''pending'' \<and>
   status_of (db_of (done_job\<lparr>status := ''processing'', started_at := Some 100\<rparr>)) ''j1''
     \<noteq> Some ''pending'' \<and>
   map (\<lambda>c. status_of c ''j1'')
     (commits (analyze_financial_document_task (db_of done_job) (redelivery (Raises boom))))
     = [Some ''processing'', Some ''failed'']"
  using worker_state_order
      [where d = "redelivery (Raises boom)" and db = "db_of done_job" and r = done_job
         and c = "db_of (done_job\<lparr>status := ''processing'', started_at := Some 100\<rparr>)"
         and ds = "[redelivery (Raises boom)]" and j = "''j1''"]
  by (simp add: example_defs run_simps)

section \<open>Result and error\<close>




section \<open>Time limits\<close>

text \<open>
  C4, as the claim states it, fails: the engine call on the pending job \<open>j1\<close> runs
  into the hard limit. The process is killed inside the call, the handler of the task
  does not run, and the store keeps the job as the dispatch committed it:
  \<open>processing\<close>, without \<^verbatim>\<open>error_message\<close> and without \<^verbatim>\<open>completed_at\<close>.
\<close>

theorem hard_limit_counterexample:
  "map_option (\<lambda>t. (status t, error_message t, completed_at t))
     (first_task (db_after (db_of pending_job)
        (analyze_financial_document_task (db_of pending_job) (redelivery Killed))) ''j1'')
   = Some (''processing'', None, None)"
  by (simp add: example_defs run_simps)

text \<open>
  C4, amended: the task has no transition for the hard limit and no cause \<open>Timeout\<close>.
  In a run that the environment does not otherwise disturb: when the hard limit kills
  the process, the task returns nothing and the job stays
  \<open>processing\<close> as the dispatch committed it. A run reaches \<open>failed\<close> on a time limit only
  through the soft limit, which is the shorter one: its exception is handled as any other
  exception of the engine call, so the job is \<open>failed\<close> with \<^verbatim>\<open>error_message\<close> the text
  and traceback of the exception, \<^verbatim>\<open>completed_at\<close> set, and the duration the clock
  reading of the handler less \<^verbatim>\<open>started_at\<close>.
\<close>

theorem time_limit_outcomes:
  assumes "undisturbed db d" and "first_task db (d_task_id d) = Some r"
  shows "(engine d = Killed \<longrightarrow>
            returned (analyze_financial_document_task db d) = None \<and>
            first_task (db_after db (analyze_financial_document_task db d)) (d_task_id d) =
              Some (r\<lparr>status := ''processing'', started_at := Some (now_started d),
                      celery_task_id := Some (request_id d)\<rparr>)) \<and>
         (engine d = Raises e \<longrightarrow>
            first_task (db_after db (analyze_financial_document_task db d)) (d_task_id d) =
              Some (r\<lparr>status := ''failed'', started_at := Some (now_started d),
                      celery_task_id := Some (request_id d),
                      error_message := Some (exc_str e @ [CHR 0x0A] @ exc_traceback e),
                      completed_at := Some (now_completed d),
                      duration_seconds := Some (now_duration d - now_started d)\<rparr>)) \<and>
         task_soft_time_limit < task_time_limit"
proof (intro conjI impI)
  assume k: "engine d = Killed"
  show "returned (analyze_financial_document_task db d) = None"
    by (simp add: run_killed[OF assms k])
  show "first_task (db_after db (analyze_financial_document_task db d)) (d_task_id d) =
          Some (r\<lparr>status := ''processing'', started_at := Some (now_started d),
                  celery_task_id := Some (request_id d)\<rparr>)"
    by (simp add: db_after_row[OF assms] run_rows[OF assms] k)
next
  assume e: "engine d = Raises e"
  show "first_task (db_after db (analyze_financial_document_task db d)) (d_task_id d) =
          Some (r\<lparr>status := ''failed'', started_at := Some (now_started d),
                  celery_task_id := Some (request_id d),
                  error_message := Some (exc_str e @ [CHR 0x0A] @ exc_traceback e),
                  completed_at := Some (now_completed d),
                  duration_seconds := Some (now_duration d - now_started d)\<rparr>)"
    by (simp add: db_after_row[OF assms] run_rows[OF assms] e Let_def)
next
  show "task_soft_time_limit < task_time_limit"
    by (simp add: task_soft_time_limit_def task_time_limit_def)
qed

theorem time_limit_outcomes_witness:
  "undisturbed (db_of pending_job) (redelivery Killed) \<and>
   undisturbed (db_of pending_job) (redelivery (Raises boom)) \<and>
   first_task (db_of pending_job) (d_task_id (redelivery Killed)) = Some pending_job \<and>
   engine (redelivery Killed) = Killed \<and>
   engine (redelivery (Raises boom)) = Raises boom \<and>
   returned (analyze_financial_document_task (db_of pending_job) (redelivery Killed)) = None \<and>
   map_option status
     (first_task (db_after (db_of pending_job)
        (analyze_financial_document_task (db_of pending_job) (redelivery (Raises boom))))
        (d_task_id (redelivery (Raises boom)))) = Some ''failed''"
  using time_limit_outcomes
      [where d = "redelivery Killed" and db = "db_of pending_job" and r = pending_job
         and e = boom]
    time_limit_outcomes
      [where d = "redelivery (Raises boom)" and db = "db_of pending_job" and r = pending_job
         and e = boom]
  by (simp add: example_defs run_simps)

section \<open>The start time under redelivery\<close>

text \<open>
  C7, as the claim states it, fails: the job \<open>j1\<close> is \<open>processing\<close> with \<^verbatim>\<open>started_at\<close>
  20 when its message is delivered again at 100. Both commits of the run hold the job
  with \<^verbatim>\<open>started_at\<close> 100.
\<close>

theorem started_at_overwritten_counterexample:
  "status running_job = ''processing'' \<and> started_at running_job = Some 20 \<and>
   map (\<lambda>c. map_option started_at (first_task c ''j1''))
     (commits (analyze_financial_document_task (db_of running_job) (redelivery (Returns ''r''))))
   = [Some (Some 100), Some (Some 100)]"
  by (simp add: example_defs run_simps)

text \<open>
  C7, amended: every delivery whose job the worker finds sets \<^verbatim>\<open>started_at\<close> to the
  clock reading of that delivery, whatever the state of the job and whatever value the
  field had: in every database that the run commits, \<^verbatim>\<open>started_at\<close> is the reading of
  line 68.
\<close>

theorem started_at_is_last_delivery:
  assumes "lookup_raises d = None" and "first_task db (d_task_id d) = Some r"
    and "c \<in> set (commits (analyze_financial_document_task db d))"
  shows "map_option started_at (first_task c (d_task_id d)) = Some (Some (now_started d))"
proof -
  obtain t where "first_task c (d_task_id d) = Some t"
    and "started_at t = Some (now_started d)"
    using run_commit_row[OF assms(2,3)] by blast
  then show ?thesis by simp
qed

theorem started_at_is_last_delivery_witness:
  "lookup_raises (redelivery Killed) = None \<and>
   first_task (db_of running_job) (d_task_id (redelivery Killed)) = Some running_job \<and>
   db_of (running_job\<lparr>started_at := Some 100\<rparr>)
     \<in> set (commits (analyze_financial_document_task (db_of running_job) (redelivery Killed))) \<and>
   map_option started_at
     (first_task (db_of (running_job\<lparr>started_at := Some 100\<rparr>)) (d_task_id (redelivery Killed)))
     = Some (Some (now_started (redelivery Killed)))"
  using started_at_is_last_delivery
      [where d = "redelivery Killed" and db = "db_of running_job" and r = running_job
         and c = "db_of (running_job\<lparr>started_at := Some 100\<rparr>)"]
  by (simp add: example_defs run_simps)

section \<open>Exceptions of a run\<close>

text \<open>
  C9, as the claim states it, fails: the lookup of line 62 raises while the store holds
  the pending job \<open>j1\<close>. The handler finds \<^verbatim>\<open>task_record\<close> still \<^verbatim>\<open>None\<close> and writes
  nothing: the task returns the \<open>failed\<close> dictionary, and the job is as it was, \<open>pending\<close>
  with no \<^verbatim>\<open>error_message\<close> and no \<^verbatim>\<open>completed_at\<close>.
\<close>

theorem failure_not_recorded_counterexample:
  "returned (analyze_financial_document_task (db_of pending_job)
       ((redelivery (Returns ''r''))\<lparr>lookup_raises := Some boom\<rparr>))
     = Some (Return_failed ''j1'' ''boom'') \<and>
   map_option (\<lambda>t. (status t, error_message t, completed_at t))
     (first_task (db_after (db_of pending_job)
        (analyze_financial_document_task (db_of pending_job)
           ((redelivery (Returns ''r''))\<lparr>lookup_raises := Some boom\<rparr>))) ''j1'')
     = Some (''pending'', None, None)"
  by (simp add: example_defs run_simps)

text \<open>
  C9, amended: for every exception that a statement of the \<^verbatim>\<open>try\<close> raises once the job
  record is loaded and committed as \<open>processing\<close> (a progress report, the import or the
  engine call), the task records the failure on the record (state \<open>failed\<close>,
  \<^verbatim>\<open>error_message\<close> the text and traceback of the exception, \<^verbatim>\<open>completed_at\<close> set) and,
  the commit of the handler succeeding, returns the \<open>failed\<close> dictionary. When the
  lookup of the record itself raises, the task returns the same dictionary and commits
  nothing. In these cases no exception leaves the task. A commit of the session that
  fails is not part of the statement.
\<close>

theorem exceptions_are_returned:
  "(lookup_raises d = Some e \<longrightarrow>
      returned (analyze_financial_document_task db d)
        = Some (Return_failed (d_task_id d) (exc_str e)) \<and>
      propagated (analyze_financial_document_task db d) = None \<and>
      commits (analyze_financial_document_task db d) = []) \<and>
   (dispatched db d \<and> first_task db (d_task_id d) = Some r \<and>
    outcome_commit_raises d = None \<and>
    (progress_raises d = Some e \<or> progress_raises d = None \<and> engine d = Raises e) \<longrightarrow>
      returned (analyze_financial_document_task db d)
        = Some (Return_failed (d_task_id d) (exc_str e)) \<and>
      propagated (analyze_financial_document_task db d) = None \<and>
      first_task (db_after db (analyze_financial_document_task db d)) (d_task_id d) =
        Some (r\<lparr>status := ''failed'', started_at := Some (now_started d),
                celery_task_id := Some (request_id d),
                error_message := Some (exc_str e @ [CHR 0x0A] @ exc_traceback e),
                completed_at := Some (now_completed d),
                duration_seconds := Some (now_duration d - now_started d)\<rparr>))"
proof (intro conjI impI)
  assume "lookup_raises d = Some e"
  then show "returned (analyze_financial_document_task db d)
        = Some (Return_failed (d_task_id d) (exc_str e))"
    and "propagated (analyze_financial_document_task db d) = None"
    and "commits (analyze_financial_document_task db d) = []"
    by (simp_all add: run_lookup_raises)
next
  assume a: "dispatched db d \<and> first_task db (d_task_id d) = Some r \<and>
    outcome_commit_raises d = None \<and>
    (progress_raises d = Some e \<or> progress_raises d = None \<and> engine d = Raises e)"
  then have dp: "dispatched db d" and r: "first_task db (d_task_id d) = Some r"
    and oc: "outcome_commit_raises d = None"
    by simp_all
  have tid: "task_id r = d_task_id d" using r by (rule first_task_id)
  let ?r1 = "r\<lparr>status := ''processing'', started_at := Some (now_started d),
                celery_task_id := Some (request_id d)\<rparr>"
  let ?failed = "?r1\<lparr>status := ''failed'',
                    error_message := Some (exc_str e @ [CHR 0x0A] @ exc_traceback e),
                    completed_at := Some (now_completed d),
                    duration_seconds := Some (now_duration d - now_started d)\<rparr>"
  let ?run = "analyze_financial_document_task db d"
  have run: "commits ?run = [commit_task db ?r1, commit_task (commit_task db ?r1) ?failed] \<and>
      returned ?run = Some (Return_failed (d_task_id d) (exc_str e)) \<and> propagated ?run = None"
  proof (cases "progress_raises d")
    case (Some e')
    with a have p: "progress_raises d = Some e" by simp
    show ?thesis by (simp add: run_progress_raises[OF dp r p oc] Let_def)
  next
    case None
    with a have e: "engine d = Raises e" by simp
    have u: "undisturbed db d" using dp None oc by (simp add: undisturbed_def)
    show ?thesis by (simp add: run_raises[OF u r e] Let_def)
  qed
  then show "returned ?run = Some (Return_failed (d_task_id d) (exc_str e))"
    and "propagated ?run = None"
    by simp_all
  have "first_task (db_after db ?run) (d_task_id d) = Some ?failed"
    using run by (simp add: db_after_def first_task_commit r tid)
  then show "first_task (db_after db ?run) (d_task_id d) =
        Some (r\<lparr>status := ''failed'', started_at := Some (now_started d),
                celery_task_id := Some (request_id d),
                error_message := Some (exc_str e @ [CHR 0x0A] @ exc_traceback e),
                completed_at := Some (now_completed d),
                duration_seconds := Some (now_duration d - now_started d)\<rparr>)"
    by simp
qed

theorem exceptions_are_returned_witness:
  "lookup_raises ((redelivery Killed)\<lparr>lookup_raises := Some boom\<rparr>) = Some boom \<and>
   dispatched (db_of pending_job) (redelivery (Raises boom)) \<and>
   first_task (db_of pending_job) (d_task_id (redelivery (Raises boom))) = Some pending_job \<and>
   outcome_commit_raises (redelivery (Raises boom)) = None \<and>
   progress_raises (redelivery (Raises boom)) = None \<and>
   engine (redelivery (Raises boom)) = Raises boom \<and>
   progress_raises ((redelivery Killed)\<lparr>progress_raises := Some boom\<rparr>) = Some boom \<and>
   commits (analyze_financial_document_task (db_of pending_job)
     ((redelivery Killed)\<lparr>lookup_raises := Some boom\<rparr>)) = [] \<and>
   returned (analyze_financial_document_task (db_of pending_job) (redelivery (Raises boom)))
     = Some (Return_failed ''j1'' ''boom'') \<and>
   map_option status (first_task (db_after (db_of pending_job)
       (analyze_financial_document_task (db_of pending_job)
          ((redelivery Killed)\<lparr>progress_raises := Some boom\<rparr>))) ''j1'') = Some ''failed''"
  using exceptions_are_returned
      [where d = "(redelivery Killed)\<lparr>lookup_raises := Some boom\<rparr>" and e = boom
         and db = "db_of pending_job" and r = pending_job]
    exceptions_are_returned
      [where d = "redelivery (Raises boom)" and e = boom and db = "db_of pending_job"
         and r = pending_job]
    exceptions_are_returned
      [where d = "(redelivery Killed)\<lparr>progress_raises := Some boom\<rparr>" and e = boom
         and db = "db_of pending_job" and r = pending_job]
  by (simp add: example_defs run_simps)

text \<open>
  What the amended statement leaves out: a commit that fails. The commit of the dispatch
  fails, for one, when another row holds the Celery id of the delivery; the handler then
  uses the session that the failed commit has rolled back, and the exception of the
  session leaves the task with nothing written. The same holds of the commit of the
  result, and the exception of the handler's own commit leaves the task as it is.
\<close>

lemma failed_commit_leaves_task:
  assumes "lookup_raises d = None" and "first_task db (d_task_id d) = Some r"
    and "dispatch_commit db d = Some e"
  shows "propagated (analyze_financial_document_task db d) = Some (PendingRollbackError e)"
    and "returned (analyze_financial_document_task db d) = None"
    and "commits (analyze_financial_document_task db d) = []"
  by (simp_all add: run_dispatch_commit_fails[OF assms])

lemma failed_outcome_commit_leaves_task:
  assumes "dispatched db d" and "first_task db (d_task_id d) = Some r"
    and "progress_raises d = None" and "outcome_commit_raises d = Some e'"
  shows "engine d = Returns res \<Longrightarrow>
           propagated (analyze_financial_document_task db d) = Some (PendingRollbackError e')"
    and "engine d = Raises e \<Longrightarrow>
           propagated (analyze_financial_document_task db d) = Some (Handler_commit_error e')"
    and "engine d \<noteq> Killed \<Longrightarrow> returned (analyze_financial_document_task db d) = None"
  using assms by (cases "engine d"; simp add: task_defs dispatched_def)+

lemma celery_id_clash_example:
  "propagated (analyze_financial_document_task clash_db (redelivery (Returns ''r'')))
     = Some (PendingRollbackError integrity_error) \<and>
   db_after clash_db (analyze_financial_document_task clash_db (redelivery (Returns ''r'')))
     = clash_db"
  by (simp add: example_defs run_simps)

section \<open>Submission\<close>

lemma strip_default_query: "strip default_query = default_query"
  by (simp add: strip_def default_query_def isspace_def)

lemmas submit_simps =
  post_analyze_def analyze_document_def internal_error_def commit_task_def Let_def

text \<open>
  C6, as the claim states it, fails: a submission with a document and an empty query
  is not rejected. The handler puts the default query in the place of the empty one,
  creates the job and answers \<open>queued\<close>.
\<close>

theorem empty_query_accepted_counterexample:
  "snd (post_analyze \<lparr>req_file = Some report, req_query = Some ''''\<rparr> env_ok empty_world)
     = Inr \<lparr>resp_status = ''queued'', resp_task_id = ''j1'', resp_celery_task_id = ''c1'',
            resp_message = ''Analysis queued. Use task_id to check status'',
            resp_file_processed = ''a.pdf''\<rparr> \<and>
   map (\<lambda>t. (task_id t, query t, status t))
     (tasks (store (fst (post_analyze \<lparr>req_file = Some report, req_query = Some ''''\<rparr>
                           env_ok empty_world))))
     = [(''j1'', default_query, ''pending'')]"
  by (simp add: example_defs submit_simps strip_default_query)

text \<open>
  C6, amended: a submission without a document is rejected by the validation of the
  request (the \<^verbatim>\<open>file\<close> parameter is required) before the handler runs, and no job is
  created: the store is unchanged. A submission with a document is not rejected for its
  query or for the content of the document: when the file is written, the handler
  creates one job, \<open>pending\<close>, and a missing or empty query is replaced by the default
  query.
\<close>

theorem malformed_submission:
  "(req_file req = None \<longrightarrow>
      post_analyze req env w = (w, Inl \<lparr>status_code = 422, detail = ''Field required''\<rparr>)) \<and>
   (req_file req = Some f \<and> write_raises env = None \<longrightarrow>
      length (tasks (store (fst (post_analyze req env w)))) = Suc (length (tasks (store w))) \<and>
      task_id (last (tasks (store (fst (post_analyze req env w))))) = new_task_id env \<and>
      status (last (tasks (store (fst (post_analyze req env w))))) = ''pending'' \<and>
      (req_query req = None \<or> req_query req = Some [] \<longrightarrow>
         query (last (tasks (store (fst (post_analyze req env w))))) = default_query))"
proof (intro conjI impI)
  assume "req_file req = None"
  then show "post_analyze req env w =
      (w, Inl \<lparr>status_code = 422, detail = ''Field required''\<rparr>)"
    by (simp add: post_analyze_def)
next
  assume a: "req_file req = Some f \<and> write_raises env = None"
  let ?w = "fst (post_analyze req env w)"
  have "length (tasks (store ?w)) = Suc (length (tasks (store w))) \<and>
        task_id (last (tasks (store ?w))) = new_task_id env \<and>
        status (last (tasks (store ?w))) = ''pending''"
    using a
    by (cases "delay_result env") (auto simp: submit_simps last_map)
  then show "length (tasks (store ?w)) = Suc (length (tasks (store w)))"
    and "task_id (last (tasks (store ?w))) = new_task_id env"
    and "status (last (tasks (store ?w))) = ''pending''"
    by simp_all
  assume "req_query req = None \<or> req_query req = Some []"
  with a show "query (last (tasks (store ?w))) = default_query"
    by (cases "delay_result env") (auto simp: submit_simps strip_default_query last_map)
qed

theorem malformed_submission_witness:
  "req_file \<lparr>req_file = None, req_query = Some ''q''\<rparr> = None \<and>
   req_file \<lparr>req_file = Some (report\<lparr>content := []\<rparr>), req_query = None\<rparr>
     = Some (report\<lparr>content := []\<rparr>) \<and>
   write_raises env_ok = None \<and>
   req_query \<lparr>req_file = Some (report\<lparr>content := []\<rparr>), req_query = None\<rparr> = None \<and>
   post_analyze \<lparr>req_file = None, req_query = Some ''q''\<rparr> env_ok empty_world =
     (empty_world, Inl \<lparr>status_code = 422, detail = ''Field required''\<rparr>) \<and>
   map (\<lambda>t. (task_id t, query t, status t)) (tasks (store (fst
     (post_analyze \<lparr>req_file = Some (report\<lparr>content := []\<rparr>), req_query = None\<rparr>
        env_ok empty_world))))
     = [(''j1'', default_query, ''pending'')]"
  using malformed_submission
      [where req = "\<lparr>req_file = None, req_query = Some ''q''\<rparr>" and env = env_ok
         and w = empty_world and f = report]
    malformed_submission
      [where req = "\<lparr>req_file = Some (report\<lparr>content := []\<rparr>), req_query = None\<rparr>"
         and env = env_ok and w = empty_world and f = "report\<lparr>content := []\<rparr>"]
  by (simp add: example_defs submit_simps strip_default_query)

section \<open>Enqueue failure\<close>

text \<open>
  C8: when \<^verbatim>\<open>.delay(...)\<close> raises after the job record is committed, the caller gets the
  \<^verbatim>\<open>HTTPException\<close> with status 500, and the store keeps the record: the tasks are the
  ones before with the new job, \<open>pending\<close> and without a Celery id, at the end. Nothing
  is put on the queue and no history row is written.
\<close>

theorem enqueue_failure_keeps_pending_job:
  assumes "write_raises env = None" and "delay_result env = Inl e"
  shows "snd (analyze_document doc q env w) = Inl (internal_error e) \<and>
         status_code (internal_error e) = 500 \<and>
         tasks (store (fst (analyze_document doc q env w))) =
           tasks (store w) @ [last (tasks (store (fst (analyze_document doc q env w))))] \<and>
         task_id (last (tasks (store (fst (analyze_document doc q env w))))) = new_task_id env \<and>
         status (last (tasks (store (fst (analyze_document doc q env w))))) = ''pending'' \<and>
         celery_task_id (last (tasks (store (fst (analyze_document doc q env w))))) = None \<and>
         queue (fst (analyze_document doc q env w)) = queue w \<and>
         history (store (fst (analyze_document doc q env w))) = history (store w)"
  using assms by (simp add: analyze_document_def internal_error_def Let_def)

theorem enqueue_failure_keeps_pending_job_witness:
  "write_raises (env_ok\<lparr>delay_result := Inl broker_down\<rparr>) = None \<and>
   delay_result (env_ok\<lparr>delay_result := Inl broker_down\<rparr>) = Inl broker_down \<and>
   snd (analyze_document report (Some ''summarize'')
          (env_ok\<lparr>delay_result := Inl broker_down\<rparr>) empty_world)
     = Inl \<lparr>status_code = 500,
            detail = ''Error processing financial document: Connection refused''\<rparr> \<and>
   map (\<lambda>t. (task_id t, status t))
     (tasks (store (fst (analyze_document report (Some ''summarize'')
          (env_ok\<lparr>delay_result := Inl broker_down\<rparr>) empty_world))))
     = [(''j1'', ''pending'')]"
  using enqueue_failure_keeps_pending_job
      [where env = "env_ok\<lparr>delay_result := Inl broker_down\<rparr>" and e = broker_down
         and doc = report and q = "Some ''summarize''" and w = empty_world]
  by (simp add: example_defs submit_simps)

section \<open>Listing\<close>

lemma order_by_created_at_desc_sorted:
  "sorted_wrt (\<lambda>a b. created_at b \<le> created_at a) (order_by_created_at_desc rows)"
proof -
  have "sorted (map (\<lambda>t. - created_at t) (order_by_created_at_desc rows))"
    unfolding order_by_created_at_desc_def by (rule sorted_sort_key)
  then show ?thesis by (simp add: sorted_wrt_map)
qed

lemma set_order_by_created_at_desc [simp]:
  "set (order_by_created_at_desc rows) = set rows"
  by (simp add: order_by_created_at_desc_def)

lemma list_tasks_rows_in_range:
  assumes "0 \<le> limit" and "limit < 2 ^ 63"
  shows "list_tasks_rows dia status_arg limit db =
     Inr (take (nat limit) (order_by_created_at_desc
       (case status_arg of
          None \<Rightarrow> tasks db
        | Some s \<Rightarrow> if s = [] then tasks db else filter (\<lambda>t. status t = s) (tasks db))))"
  using assms by (simp add: list_tasks_rows_def sql_limit_def)

lemma list_tasks_out_of_range:
  "2 ^ 63 \<le> limit \<Longrightarrow> list_tasks dia status_arg (Some limit) db = Inl Integer_out_of_range"
  by (simp add: list_tasks_def list_tasks_rows_def sql_limit_def)

text \<open>
  C10, as the claim states it, fails: with the default engine, the limit \<open>-1\<close> and one
  task in the store, the list that comes back has one task, which is more than the limit.
\<close>

theorem negative_limit_counterexample:
  "list_tasks SQLite None (Some (- 1)) (db_of done_job)
     = Inr \<lparr>count = 1, tasks_json = [to_dict done_job]\<rparr> \<and>
   \<not> int (length [to_dict done_job]) \<le> - 1"
  by (simp add: list_tasks_def list_tasks_rows_def sql_limit_def order_by_created_at_desc_def
      db_of_def)

text \<open>
  C10, amended: for every call whose limit (50 when unspecified) is at least 0 and below
  \<open>2^63\<close>, the listing returns a list: it is \<^verbatim>\<open>to_dict\<close> of rows of the task table,
  \<open>count\<close> is its length, it has at most \<open>limit\<close> entries, all its rows have the given
  status when a non-empty status is given, and it is sorted by \<^verbatim>\<open>created_at\<close> in
  descending order. Any other limit reaches the database as it is.
\<close>

theorem list_tasks_bounded_filtered_sorted:
  assumes "0 \<le> (case limit_arg of None \<Rightarrow> 50 | Some n \<Rightarrow> n)"
    and "(case limit_arg of None \<Rightarrow> 50 | Some n \<Rightarrow> n) < 2 ^ 63"
  shows "case list_tasks_rows dia status_arg (case limit_arg of None \<Rightarrow> 50 | Some n \<Rightarrow> n) db of
           Inl e \<Rightarrow> False
         | Inr rows \<Rightarrow>
             list_tasks dia status_arg limit_arg db
               = Inr \<lparr>count = length rows, tasks_json = map to_dict rows\<rparr> \<and>
             int (length rows) \<le> (case limit_arg of None \<Rightarrow> 50 | Some n \<Rightarrow> n) \<and>
             (limit_arg = None \<longrightarrow> length rows \<le> 50) \<and>
             set rows \<subseteq> set (tasks db) \<and>
             (\<forall>s. status_arg = Some s \<and> s \<noteq> [] \<longrightarrow> (\<forall>t \<in> set rows. status t = s)) \<and>
             sorted_wrt (\<lambda>a b. created_at b \<le> created_at a) rows"
proof -
  let ?limit = "case limit_arg of None \<Rightarrow> 50 | Some n \<Rightarrow> n"
  let ?sel = "case status_arg of
                None \<Rightarrow> tasks db
              | Some s \<Rightarrow> if s = [] then tasks db else filter (\<lambda>t. status t = s) (tasks db)"
  let ?rows = "take (nat ?limit) (order_by_created_at_desc ?sel)"
  have rows: "list_tasks_rows dia status_arg ?limit db = Inr ?rows"
    using assms by (rule list_tasks_rows_in_range)
  have sub: "set ?rows \<subseteq> set ?sel"
    using set_take_subset[of "nat ?limit" "order_by_created_at_desc ?sel"] by simp
  have 1: "list_tasks dia status_arg limit_arg db
             = Inr \<lparr>count = length ?rows, tasks_json = map to_dict ?rows\<rparr>"
    by (simp add: list_tasks_def rows)
  have 2: "int (length ?rows) \<le> ?limit"
    using assms(1) by simp
  have 3: "limit_arg = None \<longrightarrow> length ?rows \<le> 50"
    by simp
  have 4: "set ?rows \<subseteq> set (tasks db)"
    using sub by (auto split: option.splits if_splits)
  have 5: "\<forall>s. status_arg = Some s \<and> s \<noteq> [] \<longrightarrow> (\<forall>t \<in> set ?rows. status t = s)"
    using sub by auto
  have 6: "sorted_wrt (\<lambda>a b. created_at b \<le> created_at a) ?rows"
    by (rule sorted_wrt_take) (rule order_by_created_at_desc_sorted)
  show ?thesis
    by (simp only: rows sum.case) (intro conjI 1 2 3 4 5 6)
qed

theorem list_tasks_bounded_filtered_sorted_witness:
  "(0::int) \<le> (case Some 1 of None \<Rightarrow> 50 | Some n \<Rightarrow> n) \<and>
   (case Some 1 of None \<Rightarrow> 50 | Some n \<Rightarrow> n) < (2::int) ^ 63 \<and>
   (0::int) \<le> (case None of None \<Rightarrow> 50 | Some n \<Rightarrow> n) \<and>
   (case None of None \<Rightarrow> 50 | Some n \<Rightarrow> n) < (2::int) ^ 63 \<and>
   list_tasks SQLite (Some ''completed'') (Some 1) three_jobs
     = Inr \<lparr>count = 1, tasks_json = [to_dict (done_job\<lparr>task_id := ''j2'', created_at := 30\<rparr>)]\<rparr> \<and>
   map_sum id (map task_id) (list_tasks_rows PostgreSQL None 50 three_jobs)
     = Inr [''j2'', ''j3'', ''j1'']"
  using list_tasks_bounded_filtered_sorted
      [where limit_arg = "Some 1" and dia = SQLite and status_arg = "Some ''completed''"
         and db = three_jobs]
    list_tasks_bounded_filtered_sorted
      [where limit_arg = None and dia = PostgreSQL and status_arg = None and db = three_jobs]
  by (simp add: list_tasks_def list_tasks_rows_def sql_limit_def order_by_created_at_desc_def
      example_defs)

section \<open>Retention\<close>

lemma removed_paths_append [simp]:
  "removed_paths (xs @ ys) = removed_paths xs @ removed_paths ys"
  by (induction xs rule: removed_paths.induct) simp_all

lemma remove_file_frame:
  "store (fst (remove_file w t)) = store w"
  "locked (fst (remove_file w t)) = locked w"
  "queue (fst (remove_file w t)) = queue w"
  by (auto simp: remove_file_def split: option.splits)

lemma remove_file_files:
  "files (fst (remove_file w t)) =
     filter (\<lambda>p. p \<notin> set (removed_paths (snd (remove_file w t)))) (files w)"
  by (auto simp: remove_file_def removeAll_filter_not_eq split: option.splits
      intro: filter_cong)

lemma remove_file_removed:
  "set (removed_paths (snd (remove_file w t))) =
     {p \<in> set (files w). p \<noteq> [] \<and> p \<notin> set (locked w) \<and> file_path t = Some p}"
  by (auto simp: remove_file_def split: option.splits)

lemma remove_file_effects: "e \<in> set (snd (remove_file w t)) \<Longrightarrow> is_file_effect e"
  by (auto simp: remove_file_def split: option.splits if_splits)

lemma sweep_task_parts:
  "fst (sweep_task w pending t) = fst (remove_file w t)"
  "snd (snd (sweep_task w pending t)) = snd (remove_file w t)"
  "del_tasks (fst (snd (sweep_task w pending t))) = del_tasks pending @ [task_id t]"
  "del_history (fst (snd (sweep_task w pending t))) =
     del_history pending
     @ map history_id (filter (\<lambda>h. h_analysis_task_id h = task_id t) (history (store w)))"
  "del_metrics (fst (snd (sweep_task w pending t))) =
     del_metrics pending
     @ map metrics_id (filter (\<lambda>m. m_analysis_task_id m = task_id t) (metrics (store w)))"
  by (simp_all add: sweep_task_def split_def Let_def remove_file_frame)

lemma sweep_all_Cons:
  "sweep_all w pending (t # ts) =
     (let s = sweep_task w pending t; r = sweep_all (fst s) (fst (snd s)) ts
      in (fst r, fst (snd r), snd (snd s) @ snd (snd r)))"
  by (simp add: split_def Let_def)

lemma sweep_all_frame:
  "store (fst (sweep_all w pending ts)) = store w \<and>
   locked (fst (sweep_all w pending ts)) = locked w \<and>
   queue (fst (sweep_all w pending ts)) = queue w"
proof (induction ts arbitrary: w pending)
  case Nil
  then show ?case by simp
next
  case (Cons t ts)
  show ?case
    unfolding sweep_all_Cons Let_def
    by (simp add: Cons.IH sweep_task_parts remove_file_frame)
qed

lemma sweep_all_effects:
  "e \<in> set (snd (snd (sweep_all w pending ts))) \<Longrightarrow> is_file_effect e"
proof (induction ts arbitrary: w pending)
  case Nil
  then show ?case by simp
next
  case (Cons t ts)
  from Cons.prems consider "e \<in> set (snd (remove_file w t))"
    | "e \<in> set (snd (snd (sweep_all (fst (sweep_task w pending t))
                                   (fst (snd (sweep_task w pending t))) ts)))"
    unfolding sweep_all_Cons Let_def by (auto simp: sweep_task_parts)
  then show ?case
  proof cases
    case 1
    then show ?thesis by (rule remove_file_effects)
  next
    case 2
    then show ?thesis by (rule Cons.IH)
  qed
qed

lemma sweep_all_files:
  "files (fst (sweep_all w pending ts)) =
     filter (\<lambda>p. p \<notin> set (removed_paths (snd (snd (sweep_all w pending ts))))) (files w)"
proof (induction ts arbitrary: w pending)
  case Nil
  then show ?case by simp
next
  case (Cons t ts)
  show ?case
    unfolding sweep_all_Cons Let_def
    by (simp add: Cons.IH sweep_task_parts remove_file_files conj_commute)
qed

lemma sweep_all_removed:
  "set (removed_paths (snd (snd (sweep_all w pending ts)))) =
     {p \<in> set (files w). p \<noteq> [] \<and> p \<notin> set (locked w) \<and> Some p \<in> file_path ` set ts}"
proof (induction ts arbitrary: w pending)
  case Nil
  then show ?case by simp
next
  case (Cons t ts)
  let ?w1 = "fst (remove_file w t)"
  have files1: "set (files ?w1) =
      {p \<in> set (files w). p \<notin> set (removed_paths (snd (remove_file w t)))}"
    by (simp add: remove_file_files)
  have "set (removed_paths (snd (snd (sweep_all w pending (t # ts))))) =
      set (removed_paths (snd (remove_file w t)))
      \<union> {p \<in> set (files ?w1). p \<noteq> [] \<and> p \<notin> set (locked w) \<and> Some p \<in> file_path ` set ts}"
    unfolding sweep_all_Cons Let_def
    by (simp add: Cons.IH sweep_task_parts remove_file_frame)
  also have "\<dots> =
      {p \<in> set (files w). p \<noteq> [] \<and> p \<notin> set (locked w) \<and> Some p \<in> file_path ` set (t # ts)}"
    unfolding files1 remove_file_removed by auto
  finally show ?case .
qed

lemma sweep_all_pending:
  "del_tasks (fst (snd (sweep_all w pending ts))) = del_tasks pending @ map task_id ts \<and>
   del_history (fst (snd (sweep_all w pending ts))) =
     del_history pending
     @ concat (map (\<lambda>t. map history_id
         (filter (\<lambda>h. h_analysis_task_id h = task_id t) (history (store w)))) ts) \<and>
   del_metrics (fst (snd (sweep_all w pending ts))) =
     del_metrics pending
     @ concat (map (\<lambda>t. map metrics_id
         (filter (\<lambda>m. m_analysis_task_id m = task_id t) (metrics (store w)))) ts)"
proof (induction ts arbitrary: w pending)
  case Nil
  then show ?case by simp
next
  case (Cons t ts)
  show ?case
    unfolding sweep_all_Cons Let_def
    by (simp add: Cons.IH sweep_task_parts remove_file_frame)
qed

text \<open>A table whose rows have distinct keys: deleting by key the rows that a filter
  selected leaves the rows that the filter did not select.\<close>

lemma filter_unselected:
  assumes "distinct (map key xs)"
  shows "filter (\<lambda>x. key x \<notin> key ` set (filter P xs)) xs = filter (\<lambda>x. \<not> P x) xs"
proof (rule filter_cong[OF refl])
  fix x assume x: "x \<in> set xs"
  have "inj_on key (set xs)" using assms by (simp add: distinct_map)
  then have "key x \<in> key ` set (filter P xs) \<longleftrightarrow> P x"
    using x by (auto dest: inj_onD)
  then show "(key x \<notin> key ` set (filter P xs)) = (\<not> P x)" by simp
qed

lemma marked_keys:
  "set (concat (map (\<lambda>t. map key (filter (\<lambda>h. ref h = task_id t) hs)) ts)) =
     key ` set (filter (\<lambda>h. ref h \<in> task_id ` set ts) hs)"
  by auto

lemma cleanup_old_tasks_sweeps:
  assumes "cutoff_date now days = Inr cutoff"
  shows "cleanup_old_tasks now days w =
     (let old = filter (old_completed cutoff) (tasks (store w));
          r = sweep_all w no_deletes old
      in if old = [] then Inr (w, [])
         else Inr ((fst r)\<lparr>store := commit_deletes (store w) (fst (snd r))\<rparr>,
                   snd (snd r) @ [Committed (del_tasks (fst (snd r))) (del_history (fst (snd r)))
                                    (del_metrics (fst (snd r)))]))"
  using assms by (simp add: cleanup_old_tasks_def Let_def split_def sweep_all_frame)

lemmas sweep_simps =
  cleanup_old_tasks_def cutoff_date_def timedelta_days_def datetime_sub_def datetime_max_def
  old_completed_def sweep_task_def remove_file_def commit_deletes_def no_deletes_def Let_def

text \<open>
  C5, as the claim states it, fails: the job \<open>j3\<close> is \<open>failed\<close> and its \<^verbatim>\<open>completed_at\<close>
  lies before the cutoff of a sweep with a window of 30 days, and the sweep leaves it in
  the store (with the completed job \<open>j2\<close>, which is younger than the window).
\<close>

theorem old_failed_job_kept_counterexample:
  "cutoff_date 10000000000000 30 = Inr 7408000000000 \<and>
   map_sum id (\<lambda>r. map (\<lambda>t. (task_id t, status t, completed_at t)) (tasks (store (fst r))))
     (cleanup_old_tasks 10000000000000 30 sweep_world)
   = Inr [(''j3'', ''failed'', Some 30), (''j2'', ''completed'', Some 9000000000000)]"
  by (simp add: example_defs sweep_simps)

text \<open>
  C5, amended: the retention sweep deletes exactly the \<open>completed\<close> jobs whose
  \<^verbatim>\<open>completed_at\<close> is before the cutoff (now less the window); every other job, a failed
  one or one completed within the window, is left as it is. With the selected jobs go
  the History and Metrics rows that name them, and no others. The stored document of a
  selected job is removed in the loop, when its path exists and the removal does not
  fail, and no other file is touched; all removals come before the one commit that ends
  the sweep, and that commit deletes the Job rows and their History and Metrics rows
  together. Without a selected job there is no commit.
\<close>

theorem retention_sweep:
  assumes "cutoff_date now days = Inr cutoff"
    and "distinct (map task_id (tasks (store w)))"
    and "distinct (map history_id (history (store w)))"
    and "distinct (map metrics_id (metrics (store w)))"
  shows "case cleanup_old_tasks now days w of
           Inl e \<Rightarrow> False
         | Inr (w', trace) \<Rightarrow>
             tasks (store w') =
               filter (\<lambda>t. \<not> old_completed cutoff t) (tasks (store w)) \<and>
             history (store w') =
               filter (\<lambda>h. h_analysis_task_id h \<notin>
                           task_id ` set (filter (old_completed cutoff) (tasks (store w))))
                 (history (store w)) \<and>
             metrics (store w') =
               filter (\<lambda>m. m_analysis_task_id m \<notin>
                           task_id ` set (filter (old_completed cutoff) (tasks (store w))))
                 (metrics (store w)) \<and>
             files w' = filter (\<lambda>p. p \<notin> set (removed_paths trace)) (files w) \<and>
             set (removed_paths trace) =
               {p \<in> set (files w). p \<noteq> [] \<and> p \<notin> set (locked w) \<and>
                  Some p \<in> file_path ` set (filter (old_completed cutoff) (tasks (store w)))} \<and>
             trace =
               filter is_file_effect trace
               @ (if filter (old_completed cutoff) (tasks (store w)) = [] then []
                  else [Committed
                          (map task_id (filter (old_completed cutoff) (tasks (store w))))
                          (concat (map (\<lambda>t. map history_id
                              (filter (\<lambda>h. h_analysis_task_id h = task_id t) (history (store w))))
                            (filter (old_completed cutoff) (tasks (store w)))))
                          (concat (map (\<lambda>t. map metrics_id
                              (filter (\<lambda>m. m_analysis_task_id m = task_id t) (metrics (store w))))
                            (filter (old_completed cutoff) (tasks (store w)))))])"
proof (cases "filter (old_completed cutoff) (tasks (store w)) = []")
  case True
  then have run: "cleanup_old_tasks now days w = Inr (w, [])"
    using assms(1) by (simp add: cleanup_old_tasks_sweeps)
  have "filter (\<lambda>t. \<not> old_completed cutoff t) (tasks (store w)) = tasks (store w)"
    using True by (simp add: filter_empty_conv)
  then show ?thesis
    using True by (simp add: run)
next
  case False
  let ?old = "filter (old_completed cutoff) (tasks (store w))"
  let ?r = "sweep_all w no_deletes ?old"
  let ?pending = "fst (snd ?r)" and ?es = "snd (snd ?r)"
  let ?hs = "concat (map (\<lambda>t. map history_id
      (filter (\<lambda>h. h_analysis_task_id h = task_id t) (history (store w)))) ?old)"
  let ?ms = "concat (map (\<lambda>t. map metrics_id
      (filter (\<lambda>m. m_analysis_task_id m = task_id t) (metrics (store w)))) ?old)"
  let ?w' = "(fst ?r)\<lparr>store := commit_deletes (store w) ?pending\<rparr>"
  let ?trace = "?es @ [Committed (map task_id ?old) ?hs ?ms]"
  have pending: "del_tasks ?pending = map task_id ?old" "del_history ?pending = ?hs"
    "del_metrics ?pending = ?ms"
    using sweep_all_pending[of w no_deletes ?old] by (simp_all add: no_deletes_def)
  have run: "cleanup_old_tasks now days w = Inr (?w', ?trace)"
    using assms(1) False by (simp add: cleanup_old_tasks_sweeps Let_def pending)
  have file_part: "filter is_file_effect ?es = ?es"
    using sweep_all_effects[of _ w no_deletes ?old] by (simp add: filter_id_conv)
  have removed: "removed_paths ?trace = removed_paths ?es"
    by simp
  have 1: "tasks (store ?w') = filter (\<lambda>t. \<not> old_completed cutoff t) (tasks (store w))"
    using filter_unselected[OF assms(2), of "old_completed cutoff"]
    by (simp add: commit_deletes_def pending)
  have "history (store ?w') = filter (\<lambda>h. history_id h \<notin> set ?hs) (history (store w))"
    by (simp only: commit_deletes_def pending) simp
  also have "set ?hs = history_id `
      set (filter (\<lambda>h. h_analysis_task_id h \<in> task_id ` set ?old) (history (store w)))"
    by (rule marked_keys)
  also have "filter (\<lambda>h. history_id h \<notin> history_id `
        set (filter (\<lambda>h. h_analysis_task_id h \<in> task_id ` set ?old) (history (store w))))
      (history (store w)) =
      filter (\<lambda>h. h_analysis_task_id h \<notin> task_id ` set ?old) (history (store w))"
    using assms(3) by (rule filter_unselected)
  finally have 2: "history (store ?w') =
      filter (\<lambda>h. h_analysis_task_id h \<notin> task_id ` set ?old) (history (store w))" .
  have "metrics (store ?w') = filter (\<lambda>m. metrics_id m \<notin> set ?ms) (metrics (store w))"
    by (simp only: commit_deletes_def pending) simp
  also have "set ?ms = metrics_id `
      set (filter (\<lambda>m. m_analysis_task_id m \<in> task_id ` set ?old) (metrics (store w)))"
    by (rule marked_keys)
  also have "filter (\<lambda>m. metrics_id m \<notin> metrics_id `
        set (filter (\<lambda>m. m_analysis_task_id m \<in> task_id ` set ?old) (metrics (store w))))
      (metrics (store w)) =
      filter (\<lambda>m. m_analysis_task_id m \<notin> task_id ` set ?old) (metrics (store w))"
    using assms(4) by (rule filter_unselected)
  finally have 3: "metrics (store ?w') =
      filter (\<lambda>m. m_analysis_task_id m \<notin> task_id ` set ?old) (metrics (store w))" .
  have 4: "files ?w' = filter (\<lambda>p. p \<notin> set (removed_paths ?trace)) (files w)"
    unfolding removed using sweep_all_files[of w no_deletes ?old] by simp
  have 5: "set (removed_paths ?trace) =
      {p \<in> set (files w). p \<noteq> [] \<and> p \<notin> set (locked w) \<and> Some p \<in> file_path ` set ?old}"
    unfolding removed by (rule sweep_all_removed)
  have 6: "?trace = filter is_file_effect ?trace
      @ (if ?old = [] then [] else [Committed (map task_id ?old) ?hs ?ms])"
    using False by (simp add: file_part)
  show ?thesis
    by (simp only: run sum.case prod.case) (intro conjI 1 2 3 4 5 6)
qed

theorem retention_sweep_witness:
  "cutoff_date 10000000000000 30 = Inr 7408000000000 \<and>
   distinct (map task_id (tasks (store sweep_world))) \<and>
   distinct (map history_id (history (store sweep_world))) \<and>
   distinct (map metrics_id (metrics (store sweep_world))) \<and>
   cleanup_old_tasks 10000000000000 30 sweep_world =
     Inr (sweep_world
            \<lparr>store := \<lparr>tasks = [failed_job\<lparr>task_id := ''j3'', file_path := Some ''data/c.pdf''\<rparr>,
                                done_job\<lparr>task_id := ''j2'', file_path := Some ''data/b.pdf'',
                                         completed_at := Some 9000000000000\<rparr>],
                       history = [\<lparr>history_id = ''h2'', user_id = None,
                                    h_analysis_task_id = ''j2'', document_name = ''a.pdf'',
                                    analysis_type = ''investment''\<rparr>],
                       metrics = []\<rparr>,
             files := [''data/b.pdf'', ''data/c.pdf'']\<rparr>,
          [Removed_file ''j1'' ''data/a.pdf'', Committed [''j1''] [''h1''] [''m1'']])"
  using retention_sweep [where now = 10000000000000 and days = 30 and cutoff = 7408000000000
      and w = sweep_world]
  by (simp add: example_defs sweep_simps)

end
